theory Spec2Isabelle
  imports
    Main
    "HOL-Library.Word"
    "HOL-Library.Signed_Division"
    "HOL-Library.Monad_Syntax"
    "HOL-Library.Multiset"
begin

unbundle bit_operations_syntax

section \<open>The short-stack intersection driver (intersector\_short\_stack.cpp)\<close>

subsection \<open>Constants\<close>

text \<open>
  The three file-level constants of the driver. They are \<open>static int const\<close> in the
  source; \<open>sizeof(int)\<close> is 4 on every platform the SDK targets.
\<close>

definition kWorkGroupSize :: int where
  "kWorkGroupSize = 64"

definition kMaxStackSize :: int where
  "kMaxStackSize = 48"

definition kMaxBatchSize :: int where
  "kMaxBatchSize = 1024 * 1024"

definition sizeof_int :: nat where
  "sizeof_int = 4"

subsection \<open>The compute device\<close>

text \<open>
  A \<open>Calc::Buffer\<close> is an object with an identity and a size in bytes; a pointer to one
  is a \<open>Buffer option\<close>, with \<open>None\<close> for \<open>nullptr\<close>. The device hands out fresh
  identities and keeps, in program order, the calls it has received. Events (\<open>Wait\<close>,
  \<open>DeleteEvent\<close>) are not recorded, and the device's own allocation failures are outside
  the driver.
\<close>

datatype BufferType = kRead | kWrite

record Buffer =
  buf_id :: nat
  GetSize :: nat

record MeshFace =
  vidx0 :: int
  vidx1 :: int
  vidx2 :: int

text \<open>\<open>FatNodeBvhTranslator::Face\<close>: three global vertex indices, the shape id, the
  mesh-local face index (the field \<open>id\<close> of the source).\<close>

record Face =
  idx0 :: int
  idx1 :: int
  idx2 :: int
  shapeidx :: int
  face_id :: int

text \<open>
  A call received by the device. \<open>CreateBufferInitCall\<close> is the overload of
  \<open>CreateBuffer\<close> with initial data: the only such call uploads the translator's nodes,
  whose content is fixed by the face table injected into them.
\<close>

datatype calc_call =
    CreateBufferCall nat BufferType Buffer
  | CreateBufferInitCall nat BufferType "Face list" Buffer
  | DeleteBufferCall "Buffer option"
  | MapBufferCall Buffer nat nat nat
  | UnmapBufferCall Buffer nat
  | FinishCall nat
  | SetArgCall string nat "Buffer option"
  | ExecuteCall string "32 word" nat nat

record Device =
  max_alloc_size :: nat
  next_buffer :: nat
  calls :: "calc_call list"

definition CreateBuffer :: "nat \<Rightarrow> BufferType \<Rightarrow> Device \<Rightarrow> Buffer \<times> Device" where
  "CreateBuffer sz ty d =
     (let b = \<lparr>buf_id = next_buffer d, GetSize = sz\<rparr>
      in (b, d\<lparr>next_buffer := next_buffer d + 1,
               calls := calls d @ [CreateBufferCall sz ty b]\<rparr>))"

definition CreateBufferInit ::
  "nat \<Rightarrow> BufferType \<Rightarrow> Face list \<Rightarrow> Device \<Rightarrow> Buffer \<times> Device" where
  "CreateBufferInit sz ty initdata d =
     (let b = \<lparr>buf_id = next_buffer d, GetSize = sz\<rparr>
      in (b, d\<lparr>next_buffer := next_buffer d + 1,
               calls := calls d @ [CreateBufferInitCall sz ty initdata b]\<rparr>))"

definition DeleteBuffer :: "Buffer option \<Rightarrow> Device \<Rightarrow> Device" where
  "DeleteBuffer b d = d\<lparr>calls := calls d @ [DeleteBufferCall b]\<rparr>"

definition MapBuffer :: "Buffer \<Rightarrow> nat \<Rightarrow> nat \<Rightarrow> nat \<Rightarrow> Device \<Rightarrow> Device" where
  "MapBuffer b queue offset sz d = d\<lparr>calls := calls d @ [MapBufferCall b queue offset sz]\<rparr>"

definition UnmapBuffer :: "Buffer \<Rightarrow> nat \<Rightarrow> Device \<Rightarrow> Device" where
  "UnmapBuffer b queue d = d\<lparr>calls := calls d @ [UnmapBufferCall b queue]\<rparr>"

definition Finish :: "nat \<Rightarrow> Device \<Rightarrow> Device" where
  "Finish queue d = d\<lparr>calls := calls d @ [FinishCall queue]\<rparr>"

definition SetArg :: "string \<Rightarrow> nat \<Rightarrow> Buffer option \<Rightarrow> Device \<Rightarrow> Device" where
  "SetArg func arg b d = d\<lparr>calls := calls d @ [SetArgCall func arg b]\<rparr>"

definition Execute :: "string \<Rightarrow> 32 word \<Rightarrow> nat \<Rightarrow> nat \<Rightarrow> Device \<Rightarrow> Device" where
  "Execute func queueidx globalsize localsize d =
     d\<lparr>calls := calls d @ [ExecuteCall func queueidx globalsize localsize]\<rparr>"

subsection \<open>Shapes, the world and the BVH\<close>

text \<open>
  A mesh carries its face array (\<open>GetFaceData\<close>, \<open>num_faces\<close> is its length) and its
  vertex count. Vertex positions, transforms and face bounds are floating-point data and
  are left out. A shape is a mesh or an instance of a base mesh; \<open>GetId\<close> is the id of
  the shape itself.
\<close>

record Mesh =
  mesh_id :: int
  GetFaceData :: "MeshFace list"
  num_vertices :: nat

datatype Shape = MeshShape Mesh | InstanceShape int Mesh

fun GetId :: "Shape \<Rightarrow> int" where
  "GetId (MeshShape m) = mesh_id m"
| "GetId (InstanceShape i m) = i"

fun is_instance :: "Shape \<Rightarrow> bool" where
  "is_instance (MeshShape m) = False"
| "is_instance (InstanceShape i m) = True"

text \<open>\<open>static_cast<Mesh const*>(shape)\<close>: defined only when the shape is a mesh.\<close>

fun as_mesh :: "Shape \<Rightarrow> Mesh option" where
  "as_mesh (MeshShape m) = Some m"
| "as_mesh (InstanceShape i m) = None"

text \<open>\<open>static_cast<Instance const*>(shape)->GetBaseShape()\<close>, cast to a mesh: defined
  only when the shape is an instance.\<close>

fun GetBaseShape :: "Shape \<Rightarrow> Mesh option" where
  "GetBaseShape (InstanceShape i m) = Some m"
| "GetBaseShape (MeshShape m) = None"

definition num_faces :: "Mesh \<Rightarrow> int" where
  "num_faces m = int (length (GetFaceData m))"

text \<open>
  Modelled from the spec: \<open>ShapeImpl::kStateChangeNone\<close> is declared outside the two
  source files; the world reports "no shape state change" by this value.
\<close>

definition kStateChangeNone :: int where
  "kStateChangeNone = 0"

record World =
  world_shapes :: "Shape list"
  has_changed :: bool
  GetStateChange :: int

text \<open>The field \<open>world_shapes\<close> is the member \<open>shapes_\<close> of the source.\<close>

text \<open>A built BVH, as far as the driver reads it: its height and its reordered
  primitive indices (\<open>GetNumIndices\<close> is the length of \<open>GetIndices\<close>).\<close>

record Bvh =
  GetHeight :: int
  GetIndices :: "int list"


text \<open>
  What the driver calls but the two source files do not contain: the builder
  (\<open>Bvh::Build\<close> or \<open>SplitBvh::Build\<close>, chosen by the world's options, run over the
  face bounds of the partitioned shape array), the number of nodes the fat-node
  translator emits, and the byte sizes of \<open>FatNodeBvhTranslator::Node\<close> and
  \<open>float3\<close>. They are parameters of the model.
\<close>

record externals =
  Build :: "World \<Rightarrow> Shape list \<Rightarrow> int \<Rightarrow> Bvh"
  num_nodes :: "Bvh \<Rightarrow> nat"
  sizeof_Node :: nat
  sizeof_float3 :: nat

subsection \<open>The driver's state\<close>

record GpuData =
  bvh :: "Buffer option"
  vertices :: "Buffer option"
  stack :: "Buffer option"

record IntersectorShortStack =
  m_device :: Device
  m_gpudata :: GpuData
  m_bvh :: "Bvh option"


definition isect_func :: string where
  "isect_func = ''intersect_main''"

definition occlude_func :: string where
  "occlude_func = ''occluded_main''"

text \<open>How a call of the driver ends: it returns, it throws \<open>ExceptionImpl\<close> with a
  message (the state it leaves is kept), or its behaviour is undefined (a cast to the
  wrong class, a read outside an array).\<close>

datatype 'a outcome = Returns 'a | Throws string 'a | Undefined

subsection \<open>std::partition and std::upper\_bound\<close>

text \<open>
  \<open>std::partition\<close> on a vector is the standard library's algorithm for bidirectional
  iterators: advance \<open>first\<close> over elements that satisfy the predicate, move \<open>last\<close>
  back over elements that do not, swap the two elements found, and repeat on the range
  between them. The result is the permuted array and the position of the first element
  of the second group.
\<close>

function std_partition :: "('a \<Rightarrow> bool) \<Rightarrow> 'a list \<Rightarrow> 'a list \<times> nat" where
  "std_partition pred xs =
     (case dropWhile pred xs of
        [] \<Rightarrow> (xs, length xs)
      | x # ys \<Rightarrow>
          (case dropWhile (\<lambda>s. \<not> pred s) (rev ys) of
             [] \<Rightarrow> (xs, length (takeWhile pred xs))
           | y # rzs \<Rightarrow>
               (let r = std_partition pred (rev rzs)
                in (takeWhile pred xs @ y # fst r @ x # rev (takeWhile (\<lambda>s. \<not> pred s) (rev ys)),
                    length (takeWhile pred xs) + 1 + snd r))))"
  by pat_completeness auto
termination
proof (relation "measure (\<lambda>(pred, xs). length xs)", goal_cases)
  case 1
  show ?case by simp
next
  case (2 pred xs x ys y rzs)
  have "length rzs < length (rev ys)"
    using length_dropWhile_le [of "\<lambda>s. \<not> pred s" "rev ys"] 2(2) by simp
  moreover have "length ys < length xs"
    using length_dropWhile_le [of pred xs] 2(1) by simp
  ultimately show ?case by simp
qed

declare std_partition.simps [simp del]

text \<open>
  \<open>std::upper_bound\<close> is the standard library's binary search: it halves the range
  \<open>[first, first + len)\<close> until it is empty and returns the position reached.
\<close>

function upper_bound_loop :: "int list \<Rightarrow> int \<Rightarrow> nat \<Rightarrow> nat \<Rightarrow> nat" where
  "upper_bound_loop xs val first len =
     (if 0 < len then
        (let half = len div 2; middle = first + half
         in if val < xs ! middle
            then upper_bound_loop xs val first half
            else upper_bound_loop xs val (middle + 1) (len - half - 1))
      else first)"
  by pat_completeness auto
termination
  by (relation "measure (\<lambda>(xs, val, first, len). len)") auto

declare upper_bound_loop.simps [simp del]

definition upper_bound :: "int list \<Rightarrow> int \<Rightarrow> nat" where
  "upper_bound xs val = upper_bound_loop xs val 0 (length xs)"

subsection \<open>Process: the start-index tables\<close>

text \<open>
  The two vectors \<open>mesh_vertices_start_idx\<close> and \<open>mesh_faces_start_idx\<close> (both of size
  \<open>numshapes\<close>) and the running counters \<open>numfaces\<close> and \<open>numvertices\<close>.
\<close>

record tables =
  mesh_vertices_start_idx :: "int list"
  mesh_faces_start_idx :: "int list"
  numfaces :: int
  numvertices :: int

text \<open>
  The two counting loops of \<open>Process\<close>: \<open>for (int i = ...; i < stop; ++i)\<close>, each
  writing the current counters at position \<open>i\<close> and adding the mesh's face and vertex
  counts. The first loop casts \<open>shapes[i]\<close> to a mesh (\<open>as_mesh\<close>), the second takes the
  base shape of the instance (\<open>GetBaseShape\<close>); the cast is the parameter \<open>cast\<close>.
\<close>

function offsets_loop ::
  "(Shape \<Rightarrow> Mesh option) \<Rightarrow> Shape list \<Rightarrow> nat \<Rightarrow> nat \<Rightarrow> tables \<Rightarrow> tables option" where
  "offsets_loop cast shapes i stop t =
     (if i < stop then
        (if i < length shapes \<and> i < length (mesh_faces_start_idx t)
            \<and> i < length (mesh_vertices_start_idx t) then
           (case cast (shapes ! i) of
              None \<Rightarrow> None
            | Some mesh \<Rightarrow>
                offsets_loop cast shapes (i + 1) stop
                  (t\<lparr>mesh_faces_start_idx := (mesh_faces_start_idx t)[i := numfaces t],
                     mesh_vertices_start_idx := (mesh_vertices_start_idx t)[i := numvertices t],
                     numfaces := numfaces t + num_faces mesh,
                     numvertices := numvertices t + int (num_vertices mesh)\<rparr>))
         else None)
      else Some t)"
  by pat_completeness auto
termination
  by (relation "measure (\<lambda>(cast, shapes, i, stop, t). stop - i)") auto

declare offsets_loop.simps [simp del]

text \<open>
  Lines 154 to 228: copy the world's shapes, partition the copy into meshes and
  instances, and fill the tables, meshes first. The result is the partitioned array,
  \<open>nummeshes\<close>, \<open>numinstances\<close> and the tables.
\<close>

definition partition_and_count ::
  "World \<Rightarrow> (Shape list \<times> nat \<times> nat \<times> tables) option" where
  "partition_and_count world =
     (let numshapes = length (world_shapes world);
          t0 = \<lparr>mesh_vertices_start_idx = replicate numshapes 0,
                mesh_faces_start_idx = replicate numshapes 0,
                numfaces = 0, numvertices = 0\<rparr>;
          r = std_partition (\<lambda>shape. \<not> is_instance shape) (world_shapes world);
          shapes = fst r;
          nummeshes = snd r;
          numinstances = length shapes - nummeshes
      in case offsets_loop as_mesh shapes 0 nummeshes t0 of
           None \<Rightarrow> None
         | Some t1 \<Rightarrow>
             (case offsets_loop GetBaseShape shapes nummeshes (nummeshes + numinstances) t1 of
                None \<Rightarrow> None
              | Some t2 \<Rightarrow> Some (shapes, nummeshes, numinstances, t2)))"

subsection \<open>Process: the face table\<close>

text \<open>
  The body of the loop of lines 356 to 391 for one entry \<open>indextolook4\<close> of the
  reordering: find the owning shape by \<open>upper_bound\<close> over \<open>mesh_faces_start_idx\<close>, take
  its mesh (directly, or the base mesh of an instance), and emit the face with global
  vertex indices. A read outside \<open>shapes\<close>, the tables or the mesh's face array is
  undefined in the source and is \<open>None\<close> here.
\<close>

definition make_face :: "Shape list \<Rightarrow> nat \<Rightarrow> tables \<Rightarrow> int \<Rightarrow> Face option" where
  "make_face shapes nummeshes t indextolook4 =
     (let iter = upper_bound (mesh_faces_start_idx t) indextolook4;
          sidx = int iter - 1
      in if sidx < 0 \<or> int (length shapes) \<le> sidx
            \<or> int (length (mesh_faces_start_idx t)) \<le> sidx
            \<or> int (length (mesh_vertices_start_idx t)) \<le> sidx then None
         else
           (case (if sidx < int nummeshes then as_mesh (shapes ! nat sidx)
                  else GetBaseShape (shapes ! nat sidx)) of
              None \<Rightarrow> None
            | Some mesh \<Rightarrow>
                (let myfacedata = GetFaceData mesh;
                     faceidx = indextolook4 - mesh_faces_start_idx t ! nat sidx;
                     mystartidx = mesh_vertices_start_idx t ! nat sidx
                 in if faceidx < 0 \<or> int (length myfacedata) \<le> faceidx then None
                    else Some \<lparr>idx0 = vidx0 (myfacedata ! nat faceidx) + mystartidx,
                               idx1 = vidx1 (myfacedata ! nat faceidx) + mystartidx,
                               idx2 = vidx2 (myfacedata ! nat faceidx) + mystartidx,
                               shapeidx = GetId (shapes ! nat sidx),
                               face_id = faceidx\<rparr>)))"

fun facedata_loop :: "Shape list \<Rightarrow> nat \<Rightarrow> tables \<Rightarrow> int list \<Rightarrow> Face list option" where
  "facedata_loop shapes nummeshes t [] = Some []"
| "facedata_loop shapes nummeshes t (indextolook4 # reordering) =
     (case make_face shapes nummeshes t indextolook4 of
        None \<Rightarrow> None
      | Some f \<Rightarrow>
          (case facedata_loop shapes nummeshes t reordering of
             None \<Rightarrow> None
           | Some fs \<Rightarrow> Some (f # fs)))"

subsection \<open>Process\<close>

definition msg_no_stack_memory :: string where
  "msg_no_stack_memory =
     ''fatbvh accelerator can't allocate enough stack memory, try using bvh instead''"

definition msg_stack_overflow :: string where
  "msg_stack_overflow =
     ''fatbvh accelerator can cause stack overflow for this scene, try using bvh instead''"

text \<open>
  Lines 279 to 408, run once the built BVH has passed the height check: create and fill
  the vertex buffer, build the face table and inject it, upload the nodes, replace the
  traversal stack, and wait for the queue.
\<close>

definition upload ::
  "externals \<Rightarrow> Shape list \<Rightarrow> nat \<Rightarrow> tables \<Rightarrow> Bvh \<Rightarrow> IntersectorShortStack
     \<Rightarrow> IntersectorShortStack outcome" where
  "upload ext shapes nummeshes t b s =
     (let vbytes = nat (numvertices t) * sizeof_float3 ext;
          (vb, d1) = CreateBuffer vbytes kRead (m_device s);
          d2 = MapBuffer vb 0 0 vbytes d1;
          d3 = UnmapBuffer vb 0 d2
      in case facedata_loop shapes nummeshes t (GetIndices b) of
           None \<Rightarrow> Undefined
         | Some facedata \<Rightarrow>
             (let (nb, d4) = CreateBufferInit (num_nodes ext b * sizeof_Node ext) kRead facedata d3;
                  d5 = (if stack (m_gpudata s) \<noteq> None
                        then DeleteBuffer (stack (m_gpudata s)) d4 else d4);
                  (sb, d6) = CreateBuffer (nat (kMaxBatchSize * kMaxStackSize)) kWrite d5;
                  d7 = Finish 0 d6
              in Returns (s\<lparr>m_device := d7,
                            m_gpudata := \<lparr>bvh = Some nb, vertices = Some vb, stack = Some sb\<rparr>\<rparr>)))"

text \<open>
  \<open>IntersectorShortStack::Process\<close>. The rebuild runs when there is no BVH or the world
  reports a change. The old node and vertex buffers are deleted first (their pointers in
  \<open>m_gpudata\<close> are not reset); then the stack-memory check, the tables, the build, the
  height check, and the upload.
\<close>

definition Process ::
  "externals \<Rightarrow> World \<Rightarrow> IntersectorShortStack \<Rightarrow> IntersectorShortStack outcome" where
  "Process ext world s =
     (if m_bvh s = None \<or> has_changed world \<or> GetStateChange world \<noteq> kStateChangeNone then
        (let d0 = (if m_bvh s \<noteq> None
                   then DeleteBuffer (vertices (m_gpudata s))
                          (DeleteBuffer (bvh (m_gpudata s)) (m_device s))
                   else m_device s);
             s0 = s\<lparr>m_device := d0\<rparr>
         in if max_alloc_size d0 \<le> nat (kMaxBatchSize * kMaxStackSize) * sizeof_int
            then Throws msg_no_stack_memory s0
            else
              (case partition_and_count world of
                 None \<Rightarrow> Undefined
               | Some (shapes, nummeshes, numinstances, t) \<Rightarrow>
                   (let b = Build ext world shapes (numfaces t)
                    in if kMaxStackSize \<le> GetHeight b
                       then Throws msg_stack_overflow (s0\<lparr>m_bvh := None\<rparr>)
                       else upload ext shapes nummeshes t b (s0\<lparr>m_bvh := Some b\<rparr>))))
      else Returns s)"

subsection \<open>Intersect and Occluded\<close>

text \<open>
  Both take the queue index, the ray buffer, the ray-count buffer, the host cap
  \<open>maxrays\<close> (\<open>std::uint32_t\<close>) and the hit buffer. \<open>4 * maxrays * kMaxStackSize\<close> and
  the global size are computed in 32-bit unsigned arithmetic before they are widened to
  \<open>size_t\<close>. Reading the size of the stack buffer when there is none is undefined.
\<close>

definition Intersect ::
  "32 word \<Rightarrow> Buffer option \<Rightarrow> Buffer option \<Rightarrow> 32 word \<Rightarrow> Buffer option
     \<Rightarrow> IntersectorShortStack \<Rightarrow> IntersectorShortStack option" where
  "Intersect queueidx rays numrays maxrays hits s =
     (case stack (m_gpudata s) of
        None \<Rightarrow> None
      | Some st \<Rightarrow>
          (let stack_size = unat (4 * maxrays * word_of_int kMaxStackSize);
               (g, d1) =
                 (if GetSize st < stack_size
                  then (let (sb, d) = CreateBuffer stack_size kWrite
                                        (DeleteBuffer (stack (m_gpudata s)) (m_device s))
                        in ((m_gpudata s)\<lparr>stack := Some sb\<rparr>, d))
                  else (m_gpudata s, m_device s));
               func = isect_func;
               d2 = SetArg func 0 (bvh g) d1;
               d3 = SetArg func 1 (vertices g) d2;
               d4 = SetArg func 2 rays d3;
               d5 = SetArg func 3 numrays d4;
               d6 = SetArg func 4 (stack g) d5;
               d7 = SetArg func 5 hits d6;
               localsize = nat kWorkGroupSize;
               globalsize = unat (((maxrays + word_of_int kWorkGroupSize - 1)
                                     div word_of_int kWorkGroupSize) * word_of_int kWorkGroupSize);
               d8 = Execute func queueidx globalsize localsize d7
           in Some (s\<lparr>m_device := d8, m_gpudata := g\<rparr>)))"

definition Occluded ::
  "32 word \<Rightarrow> Buffer option \<Rightarrow> Buffer option \<Rightarrow> 32 word \<Rightarrow> Buffer option
     \<Rightarrow> IntersectorShortStack \<Rightarrow> IntersectorShortStack option" where
  "Occluded queueidx rays numrays maxrays hits s =
     (case stack (m_gpudata s) of
        None \<Rightarrow> None
      | Some st \<Rightarrow>
          (let stack_size = unat (4 * maxrays * word_of_int kMaxStackSize);
               (g, d1) =
                 (if GetSize st < stack_size
                  then (let (sb, d) = CreateBuffer stack_size kWrite
                                        (DeleteBuffer (stack (m_gpudata s)) (m_device s))
                        in ((m_gpudata s)\<lparr>stack := Some sb\<rparr>, d))
                  else (m_gpudata s, m_device s));
               func = occlude_func;
               d2 = SetArg func 0 (bvh g) d1;
               d3 = SetArg func 1 (vertices g) d2;
               d4 = SetArg func 2 rays d3;
               d5 = SetArg func 3 numrays d4;
               d6 = SetArg func 4 (stack g) d5;
               d7 = SetArg func 5 hits d6;
               localsize = nat kWorkGroupSize;
               globalsize = unat (((maxrays + word_of_int kWorkGroupSize - 1)
                                     div word_of_int kWorkGroupSize) * word_of_int kWorkGroupSize);
               d8 = Execute func queueidx globalsize localsize d7
           in Some (s\<lparr>m_device := d8, m_gpudata := g\<rparr>)))"

section \<open>The path-tracing renderer (ptrenderer.cpp)\<close>

subsection \<open>Outputs, the compiled scene and the working set\<close>

definition kMaxLightSamples :: nat where
  "kMaxLightSamples = 1"

text \<open>An output image: \<open>width()\<close> and \<open>height()\<close> are \<open>std::uint32_t\<close>.\<close>

record Output =
  width :: "32 word"
  height :: "32 word"

text \<open>
  Modelled from the spec: the base class \<open>Renderer\<close> (renderer.h) keeps one output
  pointer per \<open>OutputType\<close>; \<open>GetOutput\<close> reads the slot and \<open>Renderer::SetOutput\<close>
  binds it. \<open>OutputType::kColor\<close> is slot 0 and the auxiliary outputs are the slots
  \<open>1 .. kMax - 1\<close>; the number of slots \<open>kMax\<close> is a parameter.
\<close>

definition kColor :: nat where
  "kColor = 0"

datatype CameraType = kDefault | kPhysical

text \<open>The compiled scene, as far as the host code reads it; its device buffers are
  named by \<open>scene_field\<close> when they are bound as kernel arguments.\<close>

record ClwScene =
  envmapidx :: int
  camera_type :: CameraType

datatype scene_field =
    Camera | Vertices | Normals | Uvs | Indices | Shapes | Materialids | Materials
  | Textures | Texturedata | Lights | Num_lights | Volumes

text \<open>The buffers of \<open>RenderData\<close>, by name. \<open>Rays i\<close> and \<open>Pixelindices i\<close> are the
  two ping-pong arrays; \<open>Fr_\<close> names the intersection-API handle of a buffer.\<close>

datatype rd_buffer =
    Rays int | Hits | Shadowrays | Shadowhits | Intersections | Compacted_indices
  | Pixelindices int | Iota | Lightsamples | Paths | Random | Sobolmat | Hitcount
  | Fr_rays int | Fr_shadowrays | Fr_shadowhits | Fr_hits | Fr_intersections | Fr_hitcount

text \<open>The element count of every buffer of the working set.\<close>

record RenderData =
  rays0 :: nat
  rays1 :: nat
  hits :: nat
  intersections :: nat
  shadowrays :: nat
  shadowhits :: nat
  lightsamples :: nat
  paths :: nat
  random :: nat
  iota :: nat
  compacted_indices :: nat
  pixelindices0 :: nat
  pixelindices1 :: nat
  hitcount :: nat

text \<open>A kernel argument: a working-set buffer, a scene buffer, a scalar, a fresh host
  random value (\<open>rand_uint()\<close>), or the data buffer of the output bound to a slot.\<close>

datatype karg =
    BufArg rd_buffer
  | SceneArg scene_field
  | IntArg int
  | UIntArg "32 word"
  | RandArg
  | OutputData nat

text \<open>What the renderer enqueues on the compute queue and asks of the intersection
  API, in program order. The queue is a log of the calls as issued; an error that the
  compute layer raises inside one of them is not represented, so what is said below
  about a run of \<open>Render\<close> is said of a run in which the device accepts every call.\<close>

datatype pt_call =
    CreateBufferCl rd_buffer nat
  | ApiDeleteBuffer rd_buffer
  | CreateFromOpenClBuffer rd_buffer rd_buffer
  | CopyBufferCl rd_buffer rd_buffer nat
  | FillBufferCl rd_buffer int nat
  | QueryIntersection rd_buffer rd_buffer int rd_buffer
  | QueryIntersectionN rd_buffer int rd_buffer
  | QueryOcclusion rd_buffer rd_buffer int rd_buffer
  | Compact rd_buffer rd_buffer rd_buffer rd_buffer
  | Launch1D nat int int string "karg list"
  | Launch2D nat "nat \<times> nat" "nat \<times> nat" string "karg list"
  | Flush nat
  | FinishQueue nat
  | ClearOutput Output

text \<open>
  Modelled from the spec: the members of \<open>PtRenderer\<close> are declared in ptrenderer.h,
  which is not among these sources. \<open>m_framecnt\<close> and \<open>m_num_bounces\<close> are 32-bit
  unsigned integers here: \<open>m_framecnt\<close> is handed to the kernels as a 32-bit scalar and
  \<open>m_num_bounces\<close> is cast to \<open>int\<close> in the loop bound of \<open>Render\<close>. \<open>queue\<close> is the log of
  the calls issued so far.
\<close>

record PtRenderer =
  m_outputs :: "nat \<Rightarrow> Output option"
  m_render_data :: RenderData
  m_num_bounces :: "32 word"
  m_framecnt :: "32 word"
  queue :: "pt_call list"

definition enqueue :: "pt_call list \<Rightarrow> PtRenderer \<Rightarrow> PtRenderer" where
  "enqueue cs s = s\<lparr>queue := queue s @ cs\<rparr>"

definition GetOutput :: "PtRenderer \<Rightarrow> nat \<Rightarrow> Output option" where
  "GetOutput s type = m_outputs s type"

definition Renderer_SetOutput :: "nat \<Rightarrow> Output \<Rightarrow> PtRenderer \<Rightarrow> PtRenderer" where
  "Renderer_SetOutput type output s = s\<lparr>m_outputs := (m_outputs s)(type := Some output)\<rparr>"

subsection \<open>Constructor, Clear, SetNumBounces\<close>

definition PtRenderer_new :: "int \<Rightarrow> PtRenderer" where
  "PtRenderer_new num_bounces =
     \<lparr>m_outputs = (\<lambda>type. None),
      m_render_data = \<lparr>rays0 = 0, rays1 = 0, hits = 0, intersections = 0, shadowrays = 0,
                        shadowhits = 0, lightsamples = 0, paths = 0, random = 0, iota = 0,
                        compacted_indices = 0, pixelindices0 = 0, pixelindices1 = 0,
                        hitcount = 0\<rparr>,
      m_num_bounces = word_of_int num_bounces,
      m_framecnt = 0,
      queue = []\<rparr>"

text \<open>\<open>Clear(val, output)\<close>: the output clears itself to \<open>val\<close> (a \<open>float3\<close>, left
  out) and the frame counter is reset.\<close>

definition Clear :: "Output \<Rightarrow> PtRenderer \<Rightarrow> PtRenderer" where
  "Clear output s = (enqueue [ClearOutput output] s)\<lparr>m_framecnt := 0\<rparr>"

definition SetNumBounces :: "int \<Rightarrow> PtRenderer \<Rightarrow> PtRenderer" where
  "SetNumBounces num_bounces s = s\<lparr>m_num_bounces := word_of_int num_bounces\<rparr>"

subsection \<open>SetOutput and ResizeWorkingSet\<close>

text \<open>
  \<open>ResizeWorkingSet\<close>: every per-pixel buffer is created anew with
  \<open>output.width() * output.height()\<close> elements (a 32-bit product), \<open>hitcount\<close> with one;
  the seven intersection-API handles are deleted and created again from the new buffers.
  The byte total \<open>m_vidmemws\<close> depends on the sizes of types declared elsewhere and is
  left out.
\<close>

definition ResizeWorkingSet :: "Output \<Rightarrow> PtRenderer \<Rightarrow> PtRenderer" where
  "ResizeWorkingSet output s =
     (let n = unat (width output * height output)
      in enqueue
           [CreateBufferCl (Rays 0) n, CreateBufferCl (Rays 1) n, CreateBufferCl Hits n,
            CreateBufferCl Intersections n,
            CreateBufferCl Shadowrays (n * kMaxLightSamples),
            CreateBufferCl Shadowhits (n * kMaxLightSamples),
            CreateBufferCl Lightsamples (n * kMaxLightSamples),
            CreateBufferCl Paths n, CreateBufferCl Random n, CreateBufferCl Iota n,
            CreateBufferCl Compacted_indices n,
            CreateBufferCl (Pixelindices 0) n, CreateBufferCl (Pixelindices 1) n,
            CreateBufferCl Hitcount 1,
            ApiDeleteBuffer (Fr_rays 0), ApiDeleteBuffer (Fr_rays 1),
            ApiDeleteBuffer Fr_shadowrays, ApiDeleteBuffer Fr_hits,
            ApiDeleteBuffer Fr_shadowhits, ApiDeleteBuffer Fr_intersections,
            ApiDeleteBuffer Fr_hitcount,
            CreateFromOpenClBuffer (Fr_rays 0) (Rays 0),
            CreateFromOpenClBuffer (Fr_rays 1) (Rays 1),
            CreateFromOpenClBuffer Fr_shadowrays Shadowrays,
            CreateFromOpenClBuffer Fr_hits Hits,
            CreateFromOpenClBuffer Fr_shadowhits Shadowhits,
            CreateFromOpenClBuffer Fr_intersections Intersections,
            CreateFromOpenClBuffer Fr_hitcount Hitcount]
           (s\<lparr>m_render_data :=
                 \<lparr>rays0 = n, rays1 = n, hits = n, intersections = n,
                  shadowrays = n * kMaxLightSamples, shadowhits = n * kMaxLightSamples,
                  lightsamples = n * kMaxLightSamples, paths = n, random = n, iota = n,
                  compacted_indices = n, pixelindices0 = n, pixelindices1 = n,
                  hitcount = 1\<rparr>\<rparr>))"

definition SetOutput :: "nat \<Rightarrow> Output \<Rightarrow> PtRenderer \<Rightarrow> PtRenderer" where
  "SetOutput type output s =
     (let s1 = (case GetOutput s type of
                  None \<Rightarrow> ResizeWorkingSet output s
                | Some current_output \<Rightarrow>
                    if width current_output < width output
                       \<or> height current_output < height output
                    then ResizeWorkingSet output s else s)
      in Renderer_SetOutput type output s1)"

subsection \<open>Kernel dispatches\<close>

text \<open>
  \<open>int\<close> arithmetic is 32-bit: \<open>int32 x\<close> is the value an \<open>int\<close> holds after a
  computation whose exact result is \<open>x\<close>, the result wrapped to two's complement. (For
  the sum and the product below the language leaves an overflow undefined; the wrapped
  value is what the compiled code computes.)
\<close>

definition int32 :: "int \<Rightarrow> int" where
  "int32 x = sint (word_of_int x :: 32 word)"

text \<open>
  The one-dimensional launch shape every shading kernel uses:
  \<open>int globalsize = output->width() * output->height()\<close> (the \<open>std::uint32_t\<close> product
  converted to \<open>int\<close>), then \<open>((globalsize + 63) / 64) * 64\<close> in \<open>int\<close> arithmetic, the
  division truncating towards zero; the local size is 64.
\<close>

definition launch_globalsize :: "Output \<Rightarrow> int" where
  "launch_globalsize output =
     (let globalsize = sint (width output * height output)
      in int32 ((int32 (globalsize + 63) sdiv 64) * 64))"

text \<open>\<open>GeneratePrimaryRays\<close> takes the output by reference; the generation kernel is
  launched over the image rounded up to multiples of 8 in both dimensions.\<close>

definition GeneratePrimaryRays :: "ClwScene \<Rightarrow> Output \<Rightarrow> PtRenderer \<Rightarrow> PtRenderer" where
  "GeneratePrimaryRays scene output s =
     (let kernel_name = (if camera_type scene = kDefault
                         then ''PerspectiveCamera_GeneratePaths''
                         else ''PerspectiveCameraDof_GeneratePaths'');
          gs = (unat ((width output + 7) div 8 * 8), unat ((height output + 7) div 8 * 8));
          ls = (8, 8)
      in enqueue
           [Launch2D 0 gs ls kernel_name
              [SceneArg Camera, UIntArg (width output), UIntArg (height output), RandArg,
               UIntArg (m_framecnt s), BufArg (Rays 0), BufArg Random, BufArg Sobolmat,
               BufArg Paths]] s)"

text \<open>
  The shading kernels fetch the color output themselves and read its size and data
  buffer; with no color output bound that is a null dereference (\<open>None\<close>).
\<close>

definition shade_args :: "ClwScene \<Rightarrow> int \<Rightarrow> PtRenderer \<Rightarrow> karg list" where
  "shade_args scene pass s =
     [BufArg (Rays (pass AND 1)), BufArg Intersections, BufArg Compacted_indices,
      BufArg (Pixelindices (pass AND 1)), BufArg Hitcount,
      SceneArg Vertices, SceneArg Normals, SceneArg Uvs, SceneArg Indices, SceneArg Shapes,
      SceneArg Materialids, SceneArg Materials, SceneArg Textures, SceneArg Texturedata,
      IntArg (envmapidx scene), SceneArg Lights, SceneArg Num_lights, RandArg,
      BufArg Random, BufArg Sobolmat, IntArg pass, UIntArg (m_framecnt s),
      SceneArg Volumes, BufArg Shadowrays, BufArg Lightsamples, BufArg Paths,
      BufArg (Rays ((pass + 1) AND 1)), OutputData kColor]"

definition ShadeSurface :: "ClwScene \<Rightarrow> int \<Rightarrow> PtRenderer \<Rightarrow> PtRenderer option" where
  "ShadeSurface scene pass s =
     (case GetOutput s kColor of
        None \<Rightarrow> None
      | Some output \<Rightarrow>
          Some (enqueue [Launch1D 0 (launch_globalsize output) 64 ''ShadeSurface''
                           (shade_args scene pass s)] s))"

definition ShadeVolume :: "ClwScene \<Rightarrow> int \<Rightarrow> PtRenderer \<Rightarrow> PtRenderer option" where
  "ShadeVolume scene pass s =
     (case GetOutput s kColor of
        None \<Rightarrow> None
      | Some output \<Rightarrow>
          Some (enqueue [Launch1D 0 (launch_globalsize output) 64 ''ShadeVolume''
                           (shade_args scene pass s)] s))"

definition EvaluateVolume :: "ClwScene \<Rightarrow> int \<Rightarrow> PtRenderer \<Rightarrow> PtRenderer option" where
  "EvaluateVolume scene pass s =
     (case GetOutput s kColor of
        None \<Rightarrow> None
      | Some output \<Rightarrow>
          Some (enqueue [Launch1D 0 (launch_globalsize output) 64 ''EvaluateVolume''
                           [BufArg (Rays (pass AND 1)), BufArg (Pixelindices ((pass + 1) AND 1)),
                            BufArg Hitcount, SceneArg Volumes, SceneArg Textures,
                            SceneArg Texturedata, RandArg, BufArg Random, BufArg Sobolmat,
                            IntArg pass, UIntArg (m_framecnt s), BufArg Intersections,
                            BufArg Paths, OutputData kColor]] s))"

text \<open>\<open>ShadeBackground\<close> launches the kernel \<open>ShadeBackgroundEnvMap\<close>; its fourth
  argument is the pixel count, not the \<open>hitcount\<close> buffer.\<close>

definition ShadeBackground :: "ClwScene \<Rightarrow> int \<Rightarrow> PtRenderer \<Rightarrow> PtRenderer option" where
  "ShadeBackground scene pass s =
     (case GetOutput s kColor of
        None \<Rightarrow> None
      | Some output \<Rightarrow>
          (let numrays = sint (width output * height output)
           in Some (enqueue [Launch1D 0 (launch_globalsize output) 64 ''ShadeBackgroundEnvMap''
                               [BufArg (Rays (pass AND 1)), BufArg Intersections,
                                BufArg (Pixelindices ((pass + 1) AND 1)), IntArg numrays,
                                SceneArg Lights, IntArg (envmapidx scene), SceneArg Textures,
                                SceneArg Texturedata, BufArg Paths, SceneArg Volumes,
                                OutputData kColor]] s)))"

definition GatherLightSamples :: "ClwScene \<Rightarrow> int \<Rightarrow> PtRenderer \<Rightarrow> PtRenderer option" where
  "GatherLightSamples scene pass s =
     (case GetOutput s kColor of
        None \<Rightarrow> None
      | Some output \<Rightarrow>
          Some (enqueue [Launch1D 0 (launch_globalsize output) 64 ''GatherLightSamples''
                           [BufArg (Pixelindices (pass AND 1)), BufArg Hitcount,
                            BufArg Shadowhits, BufArg Lightsamples, BufArg Paths,
                            OutputData kColor]] s))"

definition RestorePixelIndices :: "int \<Rightarrow> PtRenderer \<Rightarrow> PtRenderer option" where
  "RestorePixelIndices pass s =
     (case GetOutput s kColor of
        None \<Rightarrow> None
      | Some output \<Rightarrow>
          Some (enqueue [Launch1D 0 (launch_globalsize output) 64 ''RestorePixelIndices''
                           [BufArg Compacted_indices, BufArg Hitcount,
                            BufArg (Pixelindices ((pass + 1) AND 1)),
                            BufArg (Pixelindices (pass AND 1))]] s))"

definition FilterPathStream :: "int \<Rightarrow> PtRenderer \<Rightarrow> PtRenderer option" where
  "FilterPathStream pass s =
     (case GetOutput s kColor of
        None \<Rightarrow> None
      | Some output \<Rightarrow>
          Some (enqueue [Launch1D 0 (launch_globalsize output) 64 ''FilterPathStream''
                           [BufArg Intersections, BufArg Hitcount,
                            BufArg (Pixelindices ((pass + 1) AND 1)), BufArg Paths,
                            BufArg Hits]] s))"

definition ShadeMiss :: "ClwScene \<Rightarrow> int \<Rightarrow> PtRenderer \<Rightarrow> PtRenderer option" where
  "ShadeMiss scene pass s =
     (case GetOutput s kColor of
        None \<Rightarrow> None
      | Some output \<Rightarrow>
          Some (enqueue [Launch1D 0 (launch_globalsize output) 64 ''ShadeMiss''
                           [BufArg (Rays (pass AND 1)), BufArg Intersections,
                            BufArg (Pixelindices ((pass + 1) AND 1)), BufArg Hitcount,
                            SceneArg Lights, IntArg (envmapidx scene), SceneArg Textures,
                            SceneArg Texturedata, BufArg Paths, SceneArg Volumes,
                            OutputData kColor]] s))"

subsection \<open>The AOV pass\<close>

text \<open>The loop \<open>for (i = 1; i < kMax; ++i)\<close> that looks for a bound auxiliary output,
  in its two uses: "is there one" (\<open>Render\<close>) and "the first one" (\<open>FillAOVs\<close>).\<close>

function aov_pass_needed :: "nat \<Rightarrow> PtRenderer \<Rightarrow> nat \<Rightarrow> bool" where
  "aov_pass_needed kMax s i =
     (if i < kMax then
        (if GetOutput s i \<noteq> None then True else aov_pass_needed kMax s (i + 1))
      else False)"
  by pat_completeness auto
termination
  by (relation "measure (\<lambda>(kMax, s, i). kMax - i)") auto

declare aov_pass_needed.simps [simp del]

function first_aov :: "nat \<Rightarrow> PtRenderer \<Rightarrow> nat \<Rightarrow> Output option" where
  "first_aov kMax s i =
     (if i < kMax then
        (case GetOutput s i of
           Some output \<Rightarrow> Some output
         | None \<Rightarrow> first_aov kMax s (i + 1))
      else None)"
  by pat_completeness auto
termination
  by (relation "measure (\<lambda>(kMax, s, i). kMax - i)") auto

declare first_aov.simps [simp del]

text \<open>The trailing argument pairs of the \<open>FillAOVs\<close> kernel: an enable flag and a data
  buffer per auxiliary slot, the \<open>hitcount\<close> buffer standing in for an unbound slot.\<close>

function aov_args :: "nat \<Rightarrow> PtRenderer \<Rightarrow> nat \<Rightarrow> karg list" where
  "aov_args kMax s i =
     (if i < kMax then
        (case GetOutput s i of
           Some aov \<Rightarrow> [IntArg 1, OutputData i]
         | None \<Rightarrow> [IntArg 0, BufArg Hitcount]) @ aov_args kMax s (i + 1)
      else [])"
  by pat_completeness auto
termination
  by (relation "measure (\<lambda>(kMax, s, i). kMax - i)") auto

declare aov_args.simps [simp del]

definition FillAOVs :: "nat \<Rightarrow> ClwScene \<Rightarrow> PtRenderer \<Rightarrow> PtRenderer option" where
  "FillAOVs kMax scene s =
     (case (case GetOutput s kColor of
              Some output \<Rightarrow> Some output
            | None \<Rightarrow> first_aov kMax s 1) of
        None \<Rightarrow> None
      | Some output \<Rightarrow>
          (let num_items = sint (width output * height output);
               s1 = GeneratePrimaryRays scene output s;
               s2 = enqueue [QueryIntersectionN (Fr_rays 0) num_items Fr_intersections] s1
           in Some (enqueue
                      [Launch1D 0 (launch_globalsize output) 64 ''FillAOVs''
                         ([BufArg (Rays 0), BufArg Intersections, IntArg num_items,
                           SceneArg Vertices, SceneArg Normals, SceneArg Uvs, SceneArg Indices,
                           SceneArg Shapes, SceneArg Materialids, SceneArg Materials,
                           SceneArg Textures, SceneArg Texturedata, IntArg (envmapidx scene),
                           SceneArg Lights, SceneArg Num_lights, RandArg, BufArg Random,
                           BufArg Sobolmat, UIntArg (m_framecnt s)]
                          @ aov_args kMax s 1)] s2)))"

subsection \<open>Render\<close>

text \<open>
  The body of the bounce loop (lines 189 to 229) for one \<open>pass\<close>. \<open>maxrays\<close> is the
  pixel count of the color output.
\<close>

definition render_pass :: "ClwScene \<Rightarrow> int \<Rightarrow> int \<Rightarrow> PtRenderer \<Rightarrow> PtRenderer option" where
  "render_pass clwscene maxrays pass s0 =
     do {
       let s1 = enqueue [FillBufferCl Hits 0 (hits (m_render_data s0)),
                         QueryIntersection (Fr_rays (pass AND 1)) Fr_hitcount maxrays
                           Fr_intersections] s0;
       s2 \<leftarrow> EvaluateVolume clwscene pass s1;
       s3 \<leftarrow> (if 0 < pass \<and> - 1 < envmapidx clwscene
              then ShadeMiss clwscene pass s2 else Some s2);
       s4 \<leftarrow> FilterPathStream pass s3;
       let s5 = enqueue [Compact Hits Iota Compacted_indices Hitcount] s4;
       s6 \<leftarrow> RestorePixelIndices pass s5;
       s7 \<leftarrow> ShadeVolume clwscene pass s6;
       s8 \<leftarrow> ShadeSurface clwscene pass s7;
       s9 \<leftarrow> (if pass = 0 then ShadeBackground clwscene pass s8 else Some s8);
       let s10 = enqueue [QueryOcclusion Fr_shadowrays Fr_hitcount maxrays Fr_shadowhits] s9;
       s11 \<leftarrow> GatherLightSamples clwscene pass s10;
       Some (enqueue [Flush 0] s11)
     }"

text \<open>
  \<open>for (int pass = 0; pass < static_cast<int>(m_num_bounces); ++pass)\<close>. The bound is
  read once per call here, as \<open>bounces\<close>: no statement of the loop writes
  \<open>m_num_bounces\<close>.
\<close>

function bounce_loop ::
  "ClwScene \<Rightarrow> int \<Rightarrow> int \<Rightarrow> int \<Rightarrow> PtRenderer \<Rightarrow> PtRenderer option" where
  "bounce_loop clwscene maxrays bounces pass s =
     (if pass < bounces then
        (case render_pass clwscene maxrays pass s of
           None \<Rightarrow> None
         | Some s' \<Rightarrow> bounce_loop clwscene maxrays bounces (pass + 1) s')
      else Some s)"
  by pat_completeness auto
termination
  by (relation "measure (\<lambda>(clwscene, maxrays, bounces, pass, s). nat (bounces - pass))") auto

declare bounce_loop.simps [simp del]

text \<open>
  Lines 172 to 231 of \<open>Render\<close>: with a color output bound, generate the primary
  rays, copy \<open>iota\<close> into both pixel-index tables, set \<open>hitcount\<close> to the pixel count and
  run the bounce loop; with none bound, nothing.
\<close>

definition render_color :: "ClwScene \<Rightarrow> PtRenderer \<Rightarrow> PtRenderer option" where
  "render_color clwscene s =
     (case GetOutput s kColor of
        None \<Rightarrow> Some s
      | Some output \<Rightarrow>
          (let maxrays = sint (width output * height output);
               sa = GeneratePrimaryRays clwscene output s;
               sb = enqueue
                      [CopyBufferCl Iota (Pixelindices 0) (iota (m_render_data sa)),
                       CopyBufferCl Iota (Pixelindices 1) (iota (m_render_data sa)),
                       FillBufferCl Hitcount maxrays 1] sa
           in bounce_loop clwscene maxrays (sint (m_num_bounces sb)) 0 sb))"

text \<open>Lines 233 to 248: the AOV pass, when an output other than color is bound.\<close>

definition render_aovs :: "nat \<Rightarrow> ClwScene \<Rightarrow> PtRenderer \<Rightarrow> PtRenderer option" where
  "render_aovs kMax clwscene s =
     (if aov_pass_needed kMax s 1
      then (case FillAOVs kMax clwscene s of
              None \<Rightarrow> None
            | Some sc \<Rightarrow> Some (enqueue [Flush 0] sc))
      else Some s)"

text \<open>
  The scene controller (\<open>m_scene_controller\<close>, a \<open>ClwSceneController\<close>) is not part of
  these sources. Its \<open>CompileScene\<close> is a parameter here: for a scene it either throws
  (\<open>Inl\<close> with the message) or gives the compiled scene (\<open>Inr\<close>). The collectors it is
  handed are left out.
\<close>

type_synonym 'scene scene_controller = "'scene \<Rightarrow> string + ClwScene"

text \<open>
  \<open>PtRenderer::Render\<close>: compile the scene (lines 168 and 169), then the color part,
  the AOV part and the frame counter. \<open>Render\<close> has no handler, so an exception of
  \<open>CompileScene\<close> leaves it at once; the dereference of a null output is \<open>Undefined\<close>.
\<close>

definition Render ::
  "nat \<Rightarrow> 'scene scene_controller \<Rightarrow> 'scene \<Rightarrow> PtRenderer \<Rightarrow> PtRenderer outcome" where
  "Render kMax CompileScene scene s =
     (case CompileScene scene of
        Inl msg \<Rightarrow> Throws msg s
      | Inr clwscene \<Rightarrow>
          (case render_color clwscene s of
             None \<Rightarrow> Undefined
           | Some s1 \<Rightarrow>
               (case render_aovs kMax clwscene s1 of
                  None \<Rightarrow> Undefined
                | Some s2 \<Rightarrow> Returns (s2\<lparr>m_framecnt := m_framecnt s2 + 1\<rparr>))))"

subsection \<open>RunBenchmark\<close>

text \<open>
  \<open>RunBenchmark\<close> repeats each intersection query \<open>num_passes\<close> times between two
  clock readings; the timings written to \<open>stats\<close> are left out. It dereferences the
  color output without a check, before it compiles the scene. \<open>benchmark_passes\<close> is
  its body from line 711 on.
\<close>

definition benchmark_passes ::
  "ClwScene \<Rightarrow> Output \<Rightarrow> 32 word \<Rightarrow> PtRenderer \<Rightarrow> PtRenderer option" where
  "benchmark_passes clwscene output num_passes s =
          do {
            let maxrays = sint (width output * height output);
            let s1 = GeneratePrimaryRays clwscene output s;
            let s2 = enqueue
                       ([CopyBufferCl Iota (Pixelindices 0) (iota (m_render_data s1)),
                         CopyBufferCl Iota (Pixelindices 1) (iota (m_render_data s1)),
                         FillBufferCl Hitcount maxrays 1,
                         FillBufferCl Hits 0 (hits (m_render_data s1))]
                        @ replicate (unat num_passes)
                            (QueryIntersection (Fr_rays 0) Fr_hitcount maxrays Fr_intersections)
                        @ [FinishQueue 0]) s1;
            s3 \<leftarrow> FilterPathStream 0 s2;
            let s4 = enqueue [Compact Hits Iota Compacted_indices Hitcount] s3;
            s5 \<leftarrow> RestorePixelIndices 0 s4;
            s6 \<leftarrow> ShadeSurface clwscene 0 s5;
            s7 \<leftarrow> ShadeMiss clwscene 0 s6;
            let s8 = enqueue
                       (replicate (unat num_passes)
                          (QueryOcclusion Fr_shadowrays Fr_hitcount maxrays Fr_shadowhits)
                        @ [FinishQueue 0]) s7;
            s9 \<leftarrow> GatherLightSamples clwscene 0 s8;
            let s10 = enqueue
                        ([Flush 0, FillBufferCl Hits 0 (hits (m_render_data s9))]
                         @ replicate (unat num_passes)
                             (QueryIntersection (Fr_rays 1) Fr_hitcount maxrays Fr_intersections)
                         @ [FinishQueue 0]) s9;
            s11 \<leftarrow> FilterPathStream 1 s10;
            let s12 = enqueue [Compact Hits Iota Compacted_indices Hitcount] s11;
            s13 \<leftarrow> RestorePixelIndices 1 s12;
            s14 \<leftarrow> ShadeSurface clwscene 1 s13;
            s15 \<leftarrow> ShadeMiss clwscene 1 s14;
            let s16 = enqueue [QueryOcclusion Fr_shadowrays Fr_hitcount maxrays Fr_shadowhits] s15;
            s17 \<leftarrow> GatherLightSamples clwscene 0 s16;
            Some (enqueue [Flush 0] s17)
          }"

definition RunBenchmark ::
  "'scene scene_controller \<Rightarrow> 'scene \<Rightarrow> 32 word \<Rightarrow> PtRenderer \<Rightarrow> PtRenderer outcome" where
  "RunBenchmark CompileScene scene num_passes s =
     (case GetOutput s kColor of
        None \<Rightarrow> Undefined
      | Some output \<Rightarrow>
          (case CompileScene scene of
             Inl msg \<Rightarrow> Throws msg s
           | Inr clwscene \<Rightarrow>
               (case benchmark_passes clwscene output num_passes s of
                  None \<Rightarrow> Undefined
                | Some s' \<Rightarrow> Returns s')))"

section \<open>Views of the call logs\<close>

text \<open>
  The statements below read the logs through a few projections: the calls a renderer
  function has added to the queue, the names of the dispatches among them (kernel
  launches, intersection and occlusion queries, compaction), and the flattening of a
  shape to its base mesh.
\<close>

fun dispatch_name :: "pt_call \<Rightarrow> string option" where
  "dispatch_name (QueryIntersection b_rays b_numrays maxrays b_hits) = Some ''QueryIntersection''"
| "dispatch_name (QueryIntersectionN b_rays maxrays b_hits) = Some ''QueryIntersection''"
| "dispatch_name (QueryOcclusion b_rays b_numrays maxrays b_hits) = Some ''QueryOcclusion''"
| "dispatch_name (Compact b_pred b_in b_out b_count) = Some ''Compact''"
| "dispatch_name (Launch1D q g l name args) = Some name"
| "dispatch_name (Launch2D q g l name args) = Some name"
| "dispatch_name c = None"

definition dispatches :: "pt_call list \<Rightarrow> string list" where
  "dispatches cs = List.map_filter dispatch_name cs"

definition new_calls :: "PtRenderer \<Rightarrow> PtRenderer \<Rightarrow> pt_call list" where
  "new_calls s s' = drop (length (queue s)) (queue s')"

text \<open>\<open>same_renderer s s'\<close>: \<open>s'\<close> differs from \<open>s\<close> only by calls added to the queue.\<close>

definition same_renderer :: "PtRenderer \<Rightarrow> PtRenderer \<Rightarrow> bool" where
  "same_renderer s s' \<longleftrightarrow>
     m_outputs s' = m_outputs s \<and> m_render_data s' = m_render_data s \<and>
     m_num_bounces s' = m_num_bounces s \<and> m_framecnt s' = m_framecnt s \<and>
     take (length (queue s)) (queue s') = queue s"

text \<open>The dispatch order of one pass of the bounce loop, as the specification lists it.\<close>

definition pass_dispatches :: "ClwScene \<Rightarrow> int \<Rightarrow> string list" where
  "pass_dispatches clwscene pass =
     [''QueryIntersection'', ''EvaluateVolume'']
     @ (if 0 < pass \<and> - 1 < envmapidx clwscene then [''ShadeMiss''] else [])
     @ [''FilterPathStream'', ''Compact'', ''RestorePixelIndices'', ''ShadeVolume'',
        ''ShadeSurface'']
     @ (if pass = 0 then [''ShadeBackgroundEnvMap''] else [])
     @ [''QueryOcclusion'', ''GatherLightSamples'']"

definition generate_kernel :: "ClwScene \<Rightarrow> string" where
  "generate_kernel scene =
     (if camera_type scene = kDefault
      then ''PerspectiveCamera_GeneratePaths''
      else ''PerspectiveCameraDof_GeneratePaths'')"

text \<open>The dispatches of one whole frame: the color part, then the AOV part.\<close>

definition color_dispatches :: "ClwScene \<Rightarrow> PtRenderer \<Rightarrow> string list" where
  "color_dispatches clwscene s =
     (case GetOutput s kColor of
        None \<Rightarrow> []
      | Some output \<Rightarrow>
          generate_kernel clwscene
          # concat (map (pass_dispatches clwscene) [0..sint (m_num_bounces s) - 1]))"

definition aov_dispatches :: "nat \<Rightarrow> ClwScene \<Rightarrow> PtRenderer \<Rightarrow> string list" where
  "aov_dispatches kMax clwscene s =
     (if aov_pass_needed kMax s 1
      then [generate_kernel clwscene, ''QueryIntersection'', ''FillAOVs''] else [])"

definition frame_dispatches :: "nat \<Rightarrow> ClwScene \<Rightarrow> PtRenderer \<Rightarrow> string list" where
  "frame_dispatches kMax clwscene s =
     color_dispatches clwscene s @ aov_dispatches kMax clwscene s"

text \<open>
  The calls that bind the six kernel arguments (nodes, vertices, rays, numrays, stack,
  hits) and launch the kernel function \<open>func\<close> with local size 64.
\<close>

definition launch_calls ::
  "string \<Rightarrow> 32 word \<Rightarrow> GpuData \<Rightarrow> Buffer option \<Rightarrow> Buffer option \<Rightarrow> Buffer option
     \<Rightarrow> nat \<Rightarrow> calc_call list" where
  "launch_calls func queueidx g b_rays b_numrays b_hits globalsize =
     [SetArgCall func 0 (bvh g), SetArgCall func 1 (vertices g), SetArgCall func 2 b_rays,
      SetArgCall func 3 b_numrays, SetArgCall func 4 (stack g), SetArgCall func 5 b_hits,
      ExecuteCall func queueidx globalsize 64]"

text \<open>
  The stack-resize step: when the 32-bit product \<open>4 * maxrays * 48\<close> exceeds the size of
  the current stack buffer \<open>st\<close>, the buffer is deleted and one of that size is created;
  otherwise nothing changes. The result is the GPU data and the device afterwards.
\<close>

definition resize_stack ::
  "32 word \<Rightarrow> Buffer \<Rightarrow> IntersectorShortStack \<Rightarrow> GpuData \<times> Device" where
  "resize_stack maxrays st s =
     (if GetSize st < unat (4 * maxrays * 48)
      then ((m_gpudata s)\<lparr>stack := Some \<lparr>buf_id = next_buffer (m_device s),
                                            GetSize = unat (4 * maxrays * 48)\<rparr>\<rparr>,
            (m_device s)\<lparr>next_buffer := next_buffer (m_device s) + 1,
                         calls := calls (m_device s)
                           @ [DeleteBufferCall (Some st),
                              CreateBufferCall (unat (4 * maxrays * 48)) kWrite
                                \<lparr>buf_id = next_buffer (m_device s),
                                 GetSize = unat (4 * maxrays * 48)\<rparr>]\<rparr>)
      else (m_gpudata s, m_device s))"

text \<open>
  What a partition guarantees: \<open>ys\<close> is a rearrangement of \<open>xs\<close>, and exactly the first
  \<open>k\<close> elements of \<open>ys\<close> satisfy the predicate.
\<close>

definition partitioned :: "('a \<Rightarrow> bool) \<Rightarrow> 'a list \<Rightarrow> 'a list \<Rightarrow> nat \<Rightarrow> bool" where
  "partitioned p xs ys k \<longleftrightarrow>
     mset ys = mset xs \<and> k \<le> length ys \<and> (\<forall>i<length ys. p (ys ! i) \<longleftrightarrow> i < k)"

text \<open>The mesh whose faces a shape contributes: the mesh itself, or the base mesh of
  an instance.\<close>

fun base_mesh :: "Shape \<Rightarrow> Mesh" where
  "base_mesh (MeshShape m) = m"
| "base_mesh (InstanceShape i m) = m"

text \<open>The number of faces, and of vertices, of the first \<open>j\<close> shapes of an array.\<close>

definition faces_start :: "Shape list \<Rightarrow> nat \<Rightarrow> int" where
  "faces_start shapes j = sum_list (map (\<lambda>s. num_faces (base_mesh s)) (take j shapes))"

definition verts_start :: "Shape list \<Rightarrow> nat \<Rightarrow> int" where
  "verts_start shapes j = sum_list (map (\<lambda>s. int (num_vertices (base_mesh s))) (take j shapes))"

text \<open>\<open>tables_upto shapes i t\<close>: the tables \<open>t\<close> are filled for the first \<open>i\<close> shapes.\<close>

definition tables_upto :: "Shape list \<Rightarrow> nat \<Rightarrow> tables \<Rightarrow> bool" where
  "tables_upto shapes i t \<longleftrightarrow>
     length (mesh_faces_start_idx t) = length shapes \<and>
     length (mesh_vertices_start_idx t) = length shapes \<and>
     numfaces t = faces_start shapes i \<and>
     numvertices t = verts_start shapes i \<and>
     (\<forall>j<i. mesh_faces_start_idx t ! j = faces_start shapes j \<and>
            mesh_vertices_start_idx t ! j = verts_start shapes j)"





text \<open>\<open>launch_fits output\<close>: the pixel count of the output plus 63 is below \<open>2^31\<close>, so
  that no step of the launch-size computation leaves the range of \<open>int\<close>.\<close>

definition launch_fits :: "Output \<Rightarrow> bool" where
  "launch_fits output \<longleftrightarrow> unat (width output * height output) + 63 < 2 ^ 31"

text \<open>The launches of one-dimensional kernels in a list of calls, each with its global
  size.\<close>

fun launch_size :: "pt_call \<Rightarrow> (string \<times> int) option" where
  "launch_size (Launch1D q g l name args) = Some (name, g)"
| "launch_size c = None"

definition launches :: "pt_call list \<Rightarrow> (string \<times> int) list" where
  "launches cs = List.map_filter launch_size cs"

section \<open>Example inputs\<close>

definition example_ext :: externals where
  "example_ext =
     \<lparr>Build = (\<lambda>world shapes n. \<lparr>GetHeight = 1, GetIndices = [0]\<rparr>),
      num_nodes = (\<lambda>b. 1), sizeof_Node = 64, sizeof_float3 = 16\<rparr>"

definition example_tall_ext :: externals where
  "example_tall_ext =
     \<lparr>Build = (\<lambda>world shapes n. \<lparr>GetHeight = 48, GetIndices = [0]\<rparr>),
      num_nodes = (\<lambda>b. 1), sizeof_Node = 64, sizeof_float3 = 16\<rparr>"

definition example_world :: World where
  "example_world =
     \<lparr>world_shapes = [MeshShape \<lparr>mesh_id = 7,
                                 GetFaceData = [\<lparr>vidx0 = 0, vidx1 = 1, vidx2 = 2\<rparr>],
                                 num_vertices = 3\<rparr>],
      has_changed = True, GetStateChange = 0\<rparr>"

definition example_built :: IntersectorShortStack where
  "example_built =
     \<lparr>m_device = \<lparr>max_alloc_size = 1073741824, next_buffer = 3, calls = []\<rparr>,
      m_gpudata = \<lparr>bvh = Some \<lparr>buf_id = 0, GetSize = 64\<rparr>,
                   vertices = Some \<lparr>buf_id = 1, GetSize = 48\<rparr>,
                   stack = Some \<lparr>buf_id = 2, GetSize = 201326592\<rparr>\<rparr>,
      m_bvh = Some \<lparr>GetHeight = 1, GetIndices = [0]\<rparr>\<rparr>"


definition example_scene :: ClwScene where
  "example_scene = \<lparr>envmapidx = 2, camera_type = kDefault\<rparr>"

definition example_renderer :: PtRenderer where
  "example_renderer = SetOutput kColor \<lparr>width = 16, height = 16\<rparr> (PtRenderer_new 4)"

definition example_aov_renderer :: PtRenderer where
  "example_aov_renderer = SetOutput 1 \<lparr>width = 64, height = 64\<rparr> (PtRenderer_new 4)"

definition example_mesh :: "int \<Rightarrow> Mesh" where
  "example_mesh i =
     \<lparr>mesh_id = i,
      GetFaceData = [\<lparr>vidx0 = 0, vidx1 = 1, vidx2 = 2\<rparr>, \<lparr>vidx0 = 2, vidx1 = 1, vidx2 = 3\<rparr>],
      num_vertices = 4\<rparr>"

definition example_mixed_world :: World where
  "example_mixed_world =
     \<lparr>world_shapes = [InstanceShape 1 (example_mesh 2), MeshShape (example_mesh 2),
                      InstanceShape 3 (example_mesh 4), MeshShape (example_mesh 4)],
      has_changed = True, GetStateChange = 0\<rparr>"





text \<open>Two scene controllers: one that compiles every scene to \<open>example_scene\<close>, one
  that throws for every scene.\<close>

definition example_controller :: "unit scene_controller" where
  "example_controller scene = Inr example_scene"

definition example_failing_controller :: "unit scene_controller" where
  "example_failing_controller scene = Inl ''no camera in the scene''"

text \<open>A renderer with a 64x64 color output bound first and an 8x8 auxiliary output
  bound after it, and one whose frame counter has reached \<open>2^32 - 1\<close>.\<close>

definition example_shrunk_renderer :: PtRenderer where
  "example_shrunk_renderer =
     SetOutput 1 \<lparr>width = 8, height = 8\<rparr>
       (SetOutput kColor \<lparr>width = 64, height = 64\<rparr> (PtRenderer_new 1))"

definition example_late_renderer :: PtRenderer where
  "example_late_renderer = example_renderer\<lparr>m_framecnt := 4294967295\<rparr>"

section \<open>Properties of the intersection driver\<close>

subsection \<open>Device calls and the upload\<close>

lemma device_ops_max_alloc [simp]:
  "max_alloc_size (DeleteBuffer b d) = max_alloc_size d"
  "next_buffer (DeleteBuffer b d) = next_buffer d"
  "calls (DeleteBuffer b d) = calls d @ [DeleteBufferCall b]"
  by (simp_all add: DeleteBuffer_def)

lemma msgs_differ: "msg_no_stack_memory \<noteq> msg_stack_overflow"
proof
  assume "msg_no_stack_memory = msg_stack_overflow"
  then have "length msg_no_stack_memory = length msg_stack_overflow"
    by simp
  then show False
    by (simp add: msg_no_stack_memory_def msg_stack_overflow_def)
qed

lemma upload_not_Throws: "upload ext shapes nummeshes t b s \<noteq> Throws msg s'"
  by (simp add: upload_def Let_def split: option.splits prod.splits)

lemma upload_Returns:
  assumes "upload ext shapes nummeshes t b s = Returns s'"
  shows "m_bvh s' = m_bvh s \<and>
    (\<exists>sb pre. stack (m_gpudata s') = Some sb \<and> next_buffer (m_device s) \<le> buf_id sb \<and>
       GetSize sb = nat (kMaxBatchSize * kMaxStackSize) \<and>
       calls (m_device s') =
         pre @ (if stack (m_gpudata s) \<noteq> None then [DeleteBufferCall (stack (m_gpudata s))] else [])
             @ [CreateBufferCall (GetSize sb) kWrite sb, FinishCall 0])"
  using assms
  by (auto simp add: upload_def Let_def CreateBuffer_def CreateBufferInit_def MapBuffer_def
      UnmapBuffer_def Finish_def DeleteBuffer_def split: option.splits prod.splits if_splits)

lemma example_partition:
  "partition_and_count example_world =
     Some ([MeshShape \<lparr>mesh_id = 7, GetFaceData = [\<lparr>vidx0 = 0, vidx1 = 1, vidx2 = 2\<rparr>],
                      num_vertices = 3\<rparr>], 1, 0,
           \<lparr>mesh_vertices_start_idx = [0], mesh_faces_start_idx = [0],
            numfaces = 1, numvertices = 3\<rparr>)"
  by (simp add: partition_and_count_def example_world_def std_partition.simps
      offsets_loop.simps Let_def num_faces_def)

lemma example_Process:
  "Process example_ext example_world example_built =
     Returns
       \<lparr>m_device =
          \<lparr>max_alloc_size = 1073741824, next_buffer = 6,
           calls =
             [DeleteBufferCall (Some \<lparr>buf_id = 0, GetSize = 64\<rparr>),
              DeleteBufferCall (Some \<lparr>buf_id = 1, GetSize = 48\<rparr>),
              CreateBufferCall 48 kRead \<lparr>buf_id = 3, GetSize = 48\<rparr>,
              MapBufferCall \<lparr>buf_id = 3, GetSize = 48\<rparr> 0 0 48,
              UnmapBufferCall \<lparr>buf_id = 3, GetSize = 48\<rparr> 0,
              CreateBufferInitCall 64 kRead
                [\<lparr>idx0 = 0, idx1 = 1, idx2 = 2, shapeidx = 7, face_id = 0\<rparr>]
                \<lparr>buf_id = 4, GetSize = 64\<rparr>,
              DeleteBufferCall (Some \<lparr>buf_id = 2, GetSize = 201326592\<rparr>),
              CreateBufferCall 50331648 kWrite \<lparr>buf_id = 5, GetSize = 50331648\<rparr>,
              FinishCall 0]\<rparr>,
        m_gpudata = \<lparr>bvh = Some \<lparr>buf_id = 4, GetSize = 64\<rparr>,
                     vertices = Some \<lparr>buf_id = 3, GetSize = 48\<rparr>,
                     stack = Some \<lparr>buf_id = 5, GetSize = 50331648\<rparr>\<rparr>,
        m_bvh = Some \<lparr>GetHeight = 1, GetIndices = [0]\<rparr>\<rparr>"
  by (simp add: Process_def example_partition Let_def)
     (simp add: example_ext_def example_built_def example_world_def upload_def
      make_face_def upper_bound_def upper_bound_loop.simps Let_def
      CreateBuffer_def CreateBufferInit_def MapBuffer_def UnmapBuffer_def Finish_def
      DeleteBuffer_def kMaxBatchSize_def kMaxStackSize_def sizeof_int_def kStateChangeNone_def)

subsection \<open>The height check\<close>

text \<open>
  C4. On a rebuild: if \<open>Process\<close> throws the "stack overflow" exception the BVH has
  been released (\<open>m_bvh\<close> is null in the state it leaves); it does throw it whenever the
  built BVH has height at least \<open>kMaxStackSize = 48\<close>; and if \<open>Process\<close> returns, the
  stored BVH has height below 48.
\<close>

theorem Process_height_check:
  assumes "m_bvh s = None \<or> has_changed world \<or> GetStateChange world \<noteq> kStateChangeNone"
  shows "(\<forall>s'. Process ext world s = Throws msg_stack_overflow s' \<longrightarrow> m_bvh s' = None)
       \<and> (\<forall>s'. Process ext world s = Returns s' \<longrightarrow>
             (\<exists>b. m_bvh s' = Some b \<and> GetHeight b < kMaxStackSize))
       \<and> (\<forall>shapes nummeshes numinstances t.
             \<not> max_alloc_size (m_device s) \<le> nat (kMaxBatchSize * kMaxStackSize) * sizeof_int
             \<and> partition_and_count world = Some (shapes, nummeshes, numinstances, t)
             \<and> kMaxStackSize \<le> GetHeight (Build ext world shapes (numfaces t)) \<longrightarrow>
             (\<exists>s'. Process ext world s = Throws msg_stack_overflow s' \<and> m_bvh s' = None))
       \<and> kMaxStackSize = 48"
proof (intro conjI allI impI)
  fix s' assume "Process ext world s = Throws msg_stack_overflow s'"
  then show "m_bvh s' = None"
    using assms msgs_differ
    by (auto simp add: Process_def Let_def upload_not_Throws
        split: option.splits prod.splits if_splits)
next
  fix s' assume r: "Process ext world s = Returns s'"
  then obtain shapes nummeshes numinstances t s0 where
    u: "upload ext shapes nummeshes t (Build ext world shapes (numfaces t))
          (s0\<lparr>m_bvh := Some (Build ext world shapes (numfaces t))\<rparr>) = Returns s'"
    and h: "\<not> kMaxStackSize \<le> GetHeight (Build ext world shapes (numfaces t))"
    using assms
    by (auto simp add: Process_def Let_def split: option.splits prod.splits if_splits)
  have "m_bvh s' = Some (Build ext world shapes (numfaces t))"
    using upload_Returns [OF u] by simp
  then show "\<exists>b. m_bvh s' = Some b \<and> GetHeight b < kMaxStackSize"
    using h by simp
next
  fix shapes nummeshes numinstances t
  assume "\<not> max_alloc_size (m_device s) \<le> nat (kMaxBatchSize * kMaxStackSize) * sizeof_int
             \<and> partition_and_count world = Some (shapes, nummeshes, numinstances, t)
             \<and> kMaxStackSize \<le> GetHeight (Build ext world shapes (numfaces t))"
  then show "\<exists>s'. Process ext world s = Throws msg_stack_overflow s' \<and> m_bvh s' = None"
    using assms by (simp add: Process_def Let_def)
next
  show "kMaxStackSize = 48" by (simp add: kMaxStackSize_def)
qed

theorem Process_height_check_witness:
  "(\<exists>s'. Process example_tall_ext example_world example_built = Throws msg_stack_overflow s'
         \<and> m_bvh s' = None) \<and>
   (\<exists>s' b. Process example_ext example_world example_built = Returns s'
         \<and> m_bvh s' = Some b \<and> GetHeight b < 48)"
proof -
  have b: "m_bvh example_built = None \<or> has_changed example_world
             \<or> GetStateChange example_world \<noteq> kStateChangeNone"
    by (simp add: example_world_def)
  have m: "\<not> max_alloc_size (m_device example_built)
               \<le> nat (kMaxBatchSize * kMaxStackSize) * sizeof_int"
    by (simp add: example_built_def kMaxBatchSize_def kMaxStackSize_def sizeof_int_def)
  have h: "kMaxStackSize \<le> GetHeight (Build example_tall_ext example_world shapes n)" for shapes n
    by (simp add: example_tall_ext_def kMaxStackSize_def)
  have 1: "\<exists>s'. Process example_tall_ext example_world example_built
                  = Throws msg_stack_overflow s' \<and> m_bvh s' = None"
    using Process_height_check [OF b, of example_tall_ext] m h example_partition by blast
  obtain s' where r: "Process example_ext example_world example_built = Returns s'"
    using example_Process by blast
  have 2: "\<exists>b. m_bvh s' = Some b \<and> GetHeight b < 48"
    using Process_height_check [OF b, of example_ext] r by (simp add: kMaxStackSize_def)
  show ?thesis
    using 1 2 r by blast
qed

subsection \<open>The traversal stack buffer\<close>





subsection \<open>Intersect and Occluded\<close>

lemma Intersect_eq:
  assumes "stack (m_gpudata s) = Some st"
  shows "Intersect q r n maxrays h s =
     (let (g, d) = resize_stack maxrays st s
      in Some (s\<lparr>m_device := d\<lparr>calls := calls d
                    @ launch_calls isect_func q g r n h (unat (((maxrays + 63) div 64) * 64))\<rparr>,
                 m_gpudata := g\<rparr>))"
  using assms
  by (simp add: Intersect_def resize_stack_def launch_calls_def Let_def CreateBuffer_def
      DeleteBuffer_def SetArg_def Execute_def kMaxStackSize_def kWorkGroupSize_def add.commute)

lemma Occluded_eq:
  assumes "stack (m_gpudata s) = Some st"
  shows "Occluded q r n maxrays h s =
     (let (g, d) = resize_stack maxrays st s
      in Some (s\<lparr>m_device := d\<lparr>calls := calls d
                    @ launch_calls occlude_func q g r n h (unat (((maxrays + 63) div 64) * 64))\<rparr>,
                 m_gpudata := g\<rparr>))"
  using assms
  by (simp add: Occluded_def resize_stack_def launch_calls_def Let_def CreateBuffer_def
      DeleteBuffer_def SetArg_def Execute_def kMaxStackSize_def kWorkGroupSize_def add.commute)

lemma globalsize_no_wrap:
  fixes maxrays :: "32 word"
  assumes "unat maxrays \<le> 2 ^ 32 - 64"
  shows "unat (((maxrays + 63) div 64) * 64) = ((unat maxrays + 63) div 64) * 64"
proof -
  have a: "unat (maxrays + 63) = unat maxrays + 63"
    using assms by (simp add: unat_word_ariths)
  have b: "unat ((maxrays + 63) div 64) = (unat maxrays + 63) div 64"
    by (simp add: unat_div a)
  have "(unat maxrays + 63) div 64 * 64 \<le> unat maxrays + 63"
    by simp
  then have "(unat maxrays + 63) div 64 * 64 < 2 ^ 32"
    using assms by simp
  then show ?thesis
    by (simp add: unat_word_ariths b)
qed

lemma stack_size_le:
  fixes maxrays :: "32 word"
  shows "unat (4 * maxrays * 48) \<le> 4 * unat maxrays * 48"
proof -
  have "unat (4 * maxrays * 48) = (4 * unat maxrays * 48) mod 2 ^ 32"
    by (simp add: unat_word_ariths mod_mult_right_eq mod_mult_left_eq mult.assoc)
  then show ?thesis by simp
qed

lemma resize_stack_only_when:
  assumes "calls (snd (resize_stack maxrays st s)) \<noteq> calls (m_device s)"
  shows "GetSize st < 4 * unat maxrays * 48"
proof -
  have "GetSize st < unat (4 * maxrays * 48)"
    using assms by (simp add: resize_stack_def split: if_splits)
  then show ?thesis
    using stack_size_le [of maxrays] by simp
qed

text \<open>
  C9 (as stated, refuted). For \<open>maxrays = 2^32 - 1\<close> the global size is 0: the sum
  \<open>maxrays + 63\<close> wraps in 32-bit arithmetic, so the launch does not cover \<open>maxrays\<close>.
\<close>

theorem Intersect_globalsize_counterexample:
  "map_option (\<lambda>s'. last (calls (m_device s')))
     (Intersect 0 None None 4294967295 None example_built)
   = Some (ExecuteCall ''intersect_main'' 0 0 64)"
  by (simp add: Intersect_def example_built_def Let_def CreateBuffer_def DeleteBuffer_def
      SetArg_def Execute_def kMaxStackSize_def kWorkGroupSize_def isect_func_def)

text \<open>
  C9 (amended). \<open>Intersect\<close> and \<open>Occluded\<close> do the same thing for every input and
  differ only in the kernel function: both are undefined without a stack buffer;
  otherwise both perform the same resize step (a reallocation happens only when
  \<open>4 * maxrays * kMaxStackSize\<close> exceeds the current stack size), bind the same six
  arguments in the order nodes, vertices, rays, numrays, stack, hits, and launch with
  local size 64 and the same global size. The global size is
  \<open>((maxrays + 63) div 64) * 64\<close> in 32-bit arithmetic, which is the smallest multiple
  of 64 that is at least \<open>maxrays\<close> whenever \<open>maxrays \<le> 2^32 - 64\<close>.
\<close>

theorem Intersect_Occluded_same_sequence:
  "(stack (m_gpudata s) = None \<longrightarrow>
      Intersect q r n maxrays h s = None \<and> Occluded q r n maxrays h s = None) \<and>
   (\<forall>st. stack (m_gpudata s) = Some st \<longrightarrow>
      (\<exists>g d. (g, d) = resize_stack maxrays st s \<and>
         Intersect q r n maxrays h s =
           Some (s\<lparr>m_device := d\<lparr>calls := calls d
                     @ launch_calls isect_func q g r n h (unat (((maxrays + 63) div 64) * 64))\<rparr>,
                   m_gpudata := g\<rparr>) \<and>
         Occluded q r n maxrays h s =
           Some (s\<lparr>m_device := d\<lparr>calls := calls d
                     @ launch_calls occlude_func q g r n h (unat (((maxrays + 63) div 64) * 64))\<rparr>,
                   m_gpudata := g\<rparr>) \<and>
         (calls d \<noteq> calls (m_device s) \<longrightarrow> GetSize st < 4 * unat maxrays * nat kMaxStackSize))) \<and>
   (unat maxrays \<le> 2 ^ 32 - 64 \<longrightarrow>
      64 dvd unat (((maxrays + 63) div 64) * 64) \<and>
      unat maxrays \<le> unat (((maxrays + 63) div 64) * 64) \<and>
      unat (((maxrays + 63) div 64) * 64) < unat maxrays + 64)"
proof (intro conjI allI impI)
  assume "stack (m_gpudata s) = None"
  then show "Intersect q r n maxrays h s = None" "Occluded q r n maxrays h s = None"
    by (simp_all add: Intersect_def Occluded_def)
next
  fix st assume st: "stack (m_gpudata s) = Some st"
  obtain g d where gd: "resize_stack maxrays st s = (g, d)"
    by (cases "resize_stack maxrays st s")
  have 1: "Intersect q r n maxrays h s =
           Some (s\<lparr>m_device := d\<lparr>calls := calls d
                     @ launch_calls isect_func q g r n h (unat (((maxrays + 63) div 64) * 64))\<rparr>,
                   m_gpudata := g\<rparr>)"
    by (simp add: Intersect_eq [OF st] gd)
  have 2: "Occluded q r n maxrays h s =
           Some (s\<lparr>m_device := d\<lparr>calls := calls d
                     @ launch_calls occlude_func q g r n h (unat (((maxrays + 63) div 64) * 64))\<rparr>,
                   m_gpudata := g\<rparr>)"
    by (simp add: Occluded_eq [OF st] gd)
  have 3: "calls d \<noteq> calls (m_device s) \<longrightarrow> GetSize st < 4 * unat maxrays * nat kMaxStackSize"
    using resize_stack_only_when [of maxrays st s] gd by (simp add: kMaxStackSize_def)
  show "\<exists>g d. (g, d) = resize_stack maxrays st s \<and>
         Intersect q r n maxrays h s =
           Some (s\<lparr>m_device := d\<lparr>calls := calls d
                     @ launch_calls isect_func q g r n h (unat (((maxrays + 63) div 64) * 64))\<rparr>,
                   m_gpudata := g\<rparr>) \<and>
         Occluded q r n maxrays h s =
           Some (s\<lparr>m_device := d\<lparr>calls := calls d
                     @ launch_calls occlude_func q g r n h (unat (((maxrays + 63) div 64) * 64))\<rparr>,
                   m_gpudata := g\<rparr>) \<and>
         (calls d \<noteq> calls (m_device s) \<longrightarrow> GetSize st < 4 * unat maxrays * nat kMaxStackSize)"
    using gd [symmetric] 1 2 3 by blast
next
  assume a: "unat maxrays \<le> 2 ^ 32 - 64"
  have e: "unat (((maxrays + 63) div 64) * 64) = ((unat maxrays + 63) div 64) * 64"
    using globalsize_no_wrap [OF a] .
  show "64 dvd unat (((maxrays + 63) div 64) * 64)"
    by (simp add: e)
  show "unat maxrays \<le> unat (((maxrays + 63) div 64) * 64)"
    unfolding e by presburger
  show "unat (((maxrays + 63) div 64) * 64) < unat maxrays + 64"
    unfolding e by presburger
qed

theorem Intersect_Occluded_same_sequence_witness:
  "(\<exists>g d. Intersect 0 None None 1000 None example_built =
             Some (example_built\<lparr>m_device := d\<lparr>calls := calls d
                     @ launch_calls isect_func 0 g None None None 1024\<rparr>, m_gpudata := g\<rparr>) \<and>
           Occluded 0 None None 1000 None example_built =
             Some (example_built\<lparr>m_device := d\<lparr>calls := calls d
                     @ launch_calls occlude_func 0 g None None None 1024\<rparr>, m_gpudata := g\<rparr>)) \<and>
   64 dvd unat ((((1000::32 word) + 63) div 64) * 64)"
proof -
  have st: "stack (m_gpudata example_built) = Some \<lparr>buf_id = 2, GetSize = 201326592\<rparr>"
    by (simp add: example_built_def)
  have g: "unat ((((1000::32 word) + 63) div 64) * 64) = 1024"
    by simp
  have a: "unat (1000::32 word) \<le> 2 ^ 32 - 64"
    by simp
  show ?thesis
    using Intersect_Occluded_same_sequence [of example_built 0 None None 1000 None] st a
    unfolding g by blast
qed

subsection \<open>std::partition\<close>

lemma dropWhile_Cons_split:
  assumes "dropWhile p xs = x # ys"
  shows "xs = takeWhile p xs @ x # ys \<and> \<not> p x"
proof
  have "xs = takeWhile p xs @ dropWhile p xs"
    by simp
  then show "xs = takeWhile p xs @ x # ys"
    unfolding assms .
  have "\<not> p (hd (dropWhile p xs))"
    by (rule hd_dropWhile) (simp only: assms list.distinct not_False_eq_True)
  then show "\<not> p x"
    unfolding assms list.sel .
qed

lemma std_partition_Nil:
  assumes "dropWhile p xs = []"
  shows "std_partition p xs = (xs, length xs)"
  by (subst std_partition.simps) (simp only: assms list.case)

lemma std_partition_no_swap:
  assumes "dropWhile p xs = x # ys" "dropWhile (\<lambda>s. \<not> p s) (rev ys) = []"
  shows "std_partition p xs = (xs, length (takeWhile p xs))"
  by (subst std_partition.simps) (simp only: assms list.case)

lemma std_partition_swap:
  assumes "dropWhile p xs = x # ys" "dropWhile (\<lambda>s. \<not> p s) (rev ys) = y # rzs"
  shows "std_partition p xs =
    (takeWhile p xs @ y # fst (std_partition p (rev rzs)) @ x # rev (takeWhile (\<lambda>s. \<not> p s) (rev ys)),
     length (takeWhile p xs) + 1 + snd (std_partition p (rev rzs)))"
  by (subst std_partition.simps) (simp only: assms list.case Let_def)

lemma partitioned_append:
  assumes "partitioned p zs ms k" "\<forall>a\<in>set as. p a" "\<forall>b\<in>set bs. \<not> p b"
  shows "partitioned p (as @ zs @ bs) (as @ ms @ bs) (length as + k)"
proof -
  have len: "k \<le> length ms" and m: "mset ms = mset zs"
    and ix: "\<And>i. i < length ms \<Longrightarrow> p (ms ! i) \<longleftrightarrow> i < k"
    using assms(1) by (simp_all add: partitioned_def)
  have "p ((as @ ms @ bs) ! i) \<longleftrightarrow> i < length as + k" if "i < length (as @ ms @ bs)" for i
  proof -
    consider "i < length as" | "length as \<le> i" "i - length as < length ms"
      | "length as \<le> i" "length ms \<le> i - length as"
      by linarith
    then show ?thesis
    proof cases
      case 1
      then show ?thesis using assms(2) by (simp add: nth_append)
    next
      case 2
      then show ?thesis using ix [of "i - length as"] by (auto simp add: nth_append)
    next
      case 3
      then have "i - length as - length ms < length bs"
        using that by simp
      then have "\<not> p (bs ! (i - length as - length ms))"
        using assms(3) by simp
      then show ?thesis
        using 3 len by (auto simp add: nth_append)
    qed
  qed
  then show ?thesis
    using m len by (simp add: partitioned_def)
qed

lemma partitioned_all:
  assumes "dropWhile p xs = []"
  shows "partitioned p xs xs (length xs)"
proof -
  have "\<forall>a\<in>set xs. p a"
    using dropWhile_eq_Nil_conv [of p xs] assms by blast
  then show ?thesis
    by (simp add: partitioned_def)
qed

lemma partitioned_no_swap:
  assumes c1: "dropWhile p xs = x # ys" and c2: "dropWhile (\<lambda>s. \<not> p s) (rev ys) = []"
  shows "partitioned p xs xs (length (takeWhile p xs))"
proof -
  define front where "front = takeWhile p xs"
  have xs: "front @ x # ys = xs"
    unfolding front_def by (rule dropWhile_Cons_split [OF c1, THEN conjunct1, symmetric])
  have nx: "\<not> p x"
    by (rule dropWhile_Cons_split [OF c1, THEN conjunct2])
  have f: "\<forall>a\<in>set front. p a"
    by (auto simp add: front_def dest: set_takeWhileD)
  have "\<forall>b\<in>set (rev ys). \<not> p b"
    using dropWhile_eq_Nil_conv [of "\<lambda>s. \<not> p s" "rev ys"] c2 by blast
  then have b: "\<forall>b\<in>set (x # ys). \<not> p b"
    using nx by simp
  have e: "partitioned p [] [] 0"
    by (simp add: partitioned_def)
  have "partitioned p (front @ [] @ x # ys) (front @ [] @ x # ys) (length front + 0)"
    by (rule partitioned_append [OF e f b])
  then have "partitioned p xs xs (length front)"
    by (simp add: xs)
  then show ?thesis
    by (simp add: front_def)
qed

lemma partitioned_swap:
  assumes c1: "dropWhile p xs = x # ys"
    and c2: "dropWhile (\<lambda>s. \<not> p s) (rev ys) = y # rzs"
    and IH: "partitioned p (rev rzs) ms k"
  shows "partitioned p xs
           (takeWhile p xs @ y # ms @ x # rev (takeWhile (\<lambda>s. \<not> p s) (rev ys)))
           (length (takeWhile p xs) + 1 + k)"
proof -
  define front where "front = takeWhile p xs"
  define tail where "tail = rev (takeWhile (\<lambda>s. \<not> p s) (rev ys))"
  have xs: "front @ x # ys = xs"
    unfolding front_def by (rule dropWhile_Cons_split [OF c1, THEN conjunct1, symmetric])
  have nx: "\<not> p x"
    by (rule dropWhile_Cons_split [OF c1, THEN conjunct2])
  have "\<not> \<not> p y"
    by (rule dropWhile_Cons_split [OF c2, THEN conjunct2])
  then have py: "p y"
    by simp
  have "rev (takeWhile (\<lambda>s. \<not> p s) (rev ys) @ y # rzs) = rev (rev ys)"
    by (rule arg_cong [OF dropWhile_Cons_split [OF c2, THEN conjunct1, symmetric]])
  then have ys: "rev rzs @ y # tail = ys"
    by (simp add: tail_def)
  have f: "\<forall>a\<in>set (front @ [y]). p a"
    using py by (auto simp add: front_def dest: set_takeWhileD)
  have b: "\<forall>b\<in>set (x # tail). \<not> p b"
    using nx by (auto simp add: tail_def dest: set_takeWhileD)
  have 1: "partitioned p ((front @ [y]) @ rev rzs @ (x # tail)) ((front @ [y]) @ ms @ (x # tail))
             (length (front @ [y]) + k)"
    by (rule partitioned_append [OF IH f b])
  have "mset ((front @ [y]) @ rev rzs @ (x # tail)) = mset (front @ x # (rev rzs @ y # tail))"
    by simp
  then have 2: "mset ((front @ [y]) @ rev rzs @ (x # tail)) = mset xs"
    by (simp only: ys xs)
  have "partitioned p xs ((front @ [y]) @ ms @ (x # tail)) (length (front @ [y]) + k)"
    using 1 2 by (simp add: partitioned_def)
  then show ?thesis
    by (simp add: front_def tail_def)
qed

lemma std_partition_partitioned:
  "partitioned p xs (fst (std_partition p xs)) (snd (std_partition p xs))"
proof (induction p xs rule: std_partition.induct)
  case (1 p xs)
  show ?case
  proof (cases "dropWhile p xs")
    case Nil
    show ?thesis
      using partitioned_all [OF Nil] by (simp add: std_partition_Nil [OF Nil])
  next
    case (Cons x ys)
    note c1 = Cons
    show ?thesis
    proof (cases "dropWhile (\<lambda>s. \<not> p s) (rev ys)")
      case Nil
      show ?thesis
        using partitioned_no_swap [OF c1 Nil] by (simp add: std_partition_no_swap [OF c1 Nil])
    next
      case (Cons y rzs)
      note c2 = Cons
      show ?thesis
        using partitioned_swap [OF c1 c2 "1.IH" [OF c1 c2]]
        by (simp add: std_partition_swap [OF c1 c2])
    qed
  qed
qed

subsection \<open>The start-index tables\<close>

lemma cast_base_mesh:
  "\<not> is_instance sh \<Longrightarrow> as_mesh sh = Some (base_mesh sh)"
  "is_instance sh \<Longrightarrow> GetBaseShape sh = Some (base_mesh sh)"
  by (cases sh; simp)+

lemma faces_start_Suc:
  "j < length shapes \<Longrightarrow>
     faces_start shapes (Suc j) = faces_start shapes j + num_faces (base_mesh (shapes ! j))"
  by (simp add: faces_start_def take_Suc_conv_app_nth)

lemma verts_start_Suc:
  "j < length shapes \<Longrightarrow>
     verts_start shapes (Suc j) = verts_start shapes j + int (num_vertices (base_mesh (shapes ! j)))"
  by (simp add: verts_start_def take_Suc_conv_app_nth)

lemma tables_upto_step:
  assumes t: "tables_upto shapes i t" and i: "i < length shapes"
  shows "tables_upto shapes (Suc i)
           (t\<lparr>mesh_faces_start_idx := (mesh_faces_start_idx t)[i := numfaces t],
              mesh_vertices_start_idx := (mesh_vertices_start_idx t)[i := numvertices t],
              numfaces := numfaces t + num_faces (base_mesh (shapes ! i)),
              numvertices := numvertices t + int (num_vertices (base_mesh (shapes ! i)))\<rparr>)"
proof -
  have l: "length (mesh_faces_start_idx t) = length shapes"
    "length (mesh_vertices_start_idx t) = length shapes"
    and n: "numfaces t = faces_start shapes i" "numvertices t = verts_start shapes i"
    and o: "\<And>j. j < i \<Longrightarrow> mesh_faces_start_idx t ! j = faces_start shapes j \<and>
                  mesh_vertices_start_idx t ! j = verts_start shapes j"
    using t by (simp_all add: tables_upto_def)
  have "(mesh_faces_start_idx t)[i := numfaces t] ! j = faces_start shapes j \<and>
        (mesh_vertices_start_idx t)[i := numvertices t] ! j = verts_start shapes j"
    if "j < Suc i" for j
  proof (cases "j = i")
    case True
    then show ?thesis using l i n by simp
  next
    case False
    then have "j < i" using that by simp
    then show ?thesis using o [of j] False by simp
  qed
  then show ?thesis
    using l n i by (simp add: tables_upto_def faces_start_Suc verts_start_Suc)
qed

lemma offsets_loop_inv:
  assumes "tables_upto shapes i t" "i \<le> stop" "stop \<le> length shapes"
    and "\<forall>j. i \<le> j \<and> j < stop \<longrightarrow> cast (shapes ! j) = Some (base_mesh (shapes ! j))"
  shows "\<exists>t'. offsets_loop cast shapes i stop t = Some t' \<and> tables_upto shapes stop t'"
  using assms
proof (induction cast shapes i stop t rule: offsets_loop.induct)
  case (1 cast shapes i stop t)
  show ?case
  proof (cases "i < stop")
    case False
    then have e: "i = stop" using "1.prems"(2) by simp
    have "offsets_loop cast shapes i stop t = Some t"
      using False by (simp add: offsets_loop.simps [of cast shapes i stop t])
    moreover have "tables_upto shapes stop t"
      using "1.prems"(1) e by simp
    ultimately show ?thesis
      by simp
  next
    case True
    then have il: "i < length shapes"
      using "1.prems"(3) by simp
    have l: "i < length shapes \<and> i < length (mesh_faces_start_idx t)
               \<and> i < length (mesh_vertices_start_idx t)"
      using il "1.prems"(1) by (simp add: tables_upto_def)
    have c: "cast (shapes ! i) = Some (base_mesh (shapes ! i))"
      using "1.prems"(4) True by simp
    define t1 where "t1 = t\<lparr>mesh_faces_start_idx := (mesh_faces_start_idx t)[i := numfaces t],
              mesh_vertices_start_idx := (mesh_vertices_start_idx t)[i := numvertices t],
              numfaces := numfaces t + num_faces (base_mesh (shapes ! i)),
              numvertices := numvertices t + int (num_vertices (base_mesh (shapes ! i)))\<rparr>"
    have u: "tables_upto shapes (i + 1) t1"
      using tables_upto_step [OF "1.prems"(1) il] by (simp add: t1_def)
    have r: "\<forall>j. i + 1 \<le> j \<and> j < stop \<longrightarrow> cast (shapes ! j) = Some (base_mesh (shapes ! j))"
      using "1.prems"(4) by simp
    have s: "i + 1 \<le> stop"
      using True by simp
    have "\<exists>t'. offsets_loop cast shapes (i + 1) stop t1 = Some t' \<and> tables_upto shapes stop t'"
      using "1.IH" [OF True l c u [unfolded t1_def] s "1.prems"(3) r]
      by (simp add: t1_def)
    moreover have "offsets_loop cast shapes i stop t = offsets_loop cast shapes (i + 1) stop t1"
      using True l c by (simp add: offsets_loop.simps [of cast shapes i stop t] t1_def)
    ultimately show ?thesis
      by simp
  qed
qed

lemma partition_and_count_Some:
  "\<exists>shapes nummeshes numinstances t.
     partition_and_count world = Some (shapes, nummeshes, numinstances, t) \<and>
     partitioned (\<lambda>shape. \<not> is_instance shape) (world_shapes world) shapes nummeshes \<and>
     nummeshes + numinstances = length shapes \<and>
     tables_upto shapes (length shapes) t"
proof -
  define shapes where "shapes = fst (std_partition (\<lambda>shape. \<not> is_instance shape) (world_shapes world))"
  define nummeshes where "nummeshes = snd (std_partition (\<lambda>shape. \<not> is_instance shape) (world_shapes world))"
  define t0 where "t0 = \<lparr>mesh_vertices_start_idx = replicate (length (world_shapes world)) 0,
                mesh_faces_start_idx = replicate (length (world_shapes world)) 0,
                numfaces = 0, numvertices = 0\<rparr>"
  have p: "partitioned (\<lambda>shape. \<not> is_instance shape) (world_shapes world) shapes nummeshes"
    unfolding shapes_def nummeshes_def by (rule std_partition_partitioned)
  then have m: "mset shapes = mset (world_shapes world)" and k: "nummeshes \<le> length shapes"
    and ix: "\<And>i. i < length shapes \<Longrightarrow> (\<not> is_instance (shapes ! i)) = (i < nummeshes)"
    by (simp_all add: partitioned_def)
  have len: "length shapes = length (world_shapes world)"
    using m by (rule mset_eq_length)
  have u0: "tables_upto shapes 0 t0"
    by (simp add: tables_upto_def t0_def len faces_start_def verts_start_def)
  have c1: "\<forall>j. 0 \<le> j \<and> j < nummeshes \<longrightarrow> as_mesh (shapes ! j) = Some (base_mesh (shapes ! j))"
    using ix k by (simp add: cast_base_mesh)
  obtain t1 where t1: "offsets_loop as_mesh shapes 0 nummeshes t0 = Some t1"
    "tables_upto shapes nummeshes t1"
    using offsets_loop_inv [OF u0 _ k c1] by auto
  have c2: "\<forall>j. nummeshes \<le> j \<and> j < length shapes \<longrightarrow>
               GetBaseShape (shapes ! j) = Some (base_mesh (shapes ! j))"
  proof (intro allI impI)
    fix j assume j: "nummeshes \<le> j \<and> j < length shapes"
    then have "is_instance (shapes ! j)"
      using ix [of j] by simp
    then show "GetBaseShape (shapes ! j) = Some (base_mesh (shapes ! j))"
      by (rule cast_base_mesh)
  qed
  obtain t2 where t2: "offsets_loop GetBaseShape shapes nummeshes (length shapes) t1 = Some t2"
    "tables_upto shapes (length shapes) t2"
    using offsets_loop_inv [OF t1(2) k _ c2] by auto
  have "partition_and_count world = Some (shapes, nummeshes, length shapes - nummeshes, t2)"
    using t1(1) t2(1) k
    by (simp add: partition_and_count_def Let_def shapes_def [symmetric] nummeshes_def [symmetric]
        t0_def [symmetric])
  then show ?thesis
    using p k t2(2) by simp
qed

subsection \<open>The partition of the shape array\<close>

text \<open>
  C3 (as stated, refuted). A world with the shapes (instance 1, mesh 2, instance 3,
  mesh 4): the partitioned array is (mesh 4, mesh 2, instance 3, instance 1). The two
  meshes have changed their relative order, and so have the two instances.
\<close>

theorem Process_partition_counterexample:
  "map_option (\<lambda>(shapes, nummeshes, numinstances, t). map GetId shapes)
     (partition_and_count example_mixed_world) = Some [4, 2, 3, 1] \<and>
   map GetId (filter (\<lambda>shape. \<not> is_instance shape) (world_shapes example_mixed_world)) = [2, 4] \<and>
   map GetId (filter is_instance (world_shapes example_mixed_world)) = [1, 3]"
  by (simp add: partition_and_count_def example_mixed_world_def example_mesh_def
      std_partition.simps offsets_loop.simps Let_def num_faces_def)

text \<open>
  C3 (amended). \<open>Process\<close> partitions a copy of the shape array with \<open>std::partition\<close>:
  the partitioned array is a rearrangement of \<open>world.shapes_\<close>, its first \<open>nummeshes\<close>
  entries are the meshes and the remaining \<open>numinstances\<close> entries are the instances.
  (The order inside either group is not promised.)
\<close>

theorem Process_partitions_shapes:
  "\<exists>shapes nummeshes numinstances t.
     partition_and_count world = Some (shapes, nummeshes, numinstances, t) \<and>
     mset shapes = mset (world_shapes world) \<and>
     nummeshes + numinstances = length shapes \<and>
     (\<forall>i<length shapes. is_instance (shapes ! i) \<longleftrightarrow> nummeshes \<le> i)"
proof -
  obtain shapes nummeshes numinstances t where
    p: "partition_and_count world = Some (shapes, nummeshes, numinstances, t)"
      "partitioned (\<lambda>shape. \<not> is_instance shape) (world_shapes world) shapes nummeshes"
      "nummeshes + numinstances = length shapes"
    using partition_and_count_Some [of world] by blast
  have "mset shapes = mset (world_shapes world)"
    using p(2) by (simp add: partitioned_def)
  moreover have "\<forall>i<length shapes. is_instance (shapes ! i) \<longleftrightarrow> nummeshes \<le> i"
    using p(2) by (auto simp add: partitioned_def)
  ultimately show ?thesis
    using p(1) p(3) by blast
qed

theorem Process_partitions_shapes_witness:
  "\<exists>shapes nummeshes numinstances t.
     partition_and_count example_mixed_world = Some (shapes, nummeshes, numinstances, t) \<and>
     mset shapes = mset (world_shapes example_mixed_world) \<and>
     nummeshes + numinstances = 4"
proof -
  obtain shapes nummeshes numinstances t where
    p: "partition_and_count example_mixed_world = Some (shapes, nummeshes, numinstances, t)"
      "mset shapes = mset (world_shapes example_mixed_world)"
      "nummeshes + numinstances = length shapes"
    using Process_partitions_shapes [of example_mixed_world] by blast
  have "length shapes = length (world_shapes example_mixed_world)"
    using p(2) by (rule mset_eq_length)
  then have "nummeshes + numinstances = 4"
    using p(3) by (simp add: example_mixed_world_def)
  then show ?thesis
    using p(1) p(2) by blast
qed

subsection \<open>upper\_bound on a sorted table\<close>



subsection \<open>The face table\<close>




lemma faces_start_all:
  "length shapes \<le> j \<Longrightarrow> faces_start shapes j = faces_start shapes (length shapes)"
  by (simp add: faces_start_def)














lemma facedata_loop_None:
  "facedata_loop shapes nummeshes t reordering = None \<Longrightarrow>
     \<exists>g\<in>set reordering. make_face shapes nummeshes t g = None"
  by (induction reordering) (auto split: option.splits)

subsection \<open>The rebuild, step by step\<close>







subsection \<open>The stack-memory check\<close>




subsection \<open>The face table of a rebuild\<close>






section \<open>Properties of the renderer\<close>

subsection \<open>The queue only grows\<close>

lemma dispatches_append: "dispatches (xs @ ys) = dispatches xs @ dispatches ys"
  by (simp add: dispatches_def map_filter_def)

lemma enqueue_fields [simp]:
  "GetOutput (enqueue cs s) t = GetOutput s t"
  "m_outputs (enqueue cs s) = m_outputs s"
  "m_framecnt (enqueue cs s) = m_framecnt s"
  "m_num_bounces (enqueue cs s) = m_num_bounces s"
  "m_render_data (enqueue cs s) = m_render_data s"
  "queue (enqueue cs s) = queue s @ cs"
  by (simp_all add: enqueue_def GetOutput_def)

lemma same_renderer_refl: "same_renderer s s"
  by (simp add: same_renderer_def)

lemma same_renderer_GetOutput: "same_renderer s s' \<Longrightarrow> GetOutput s' t = GetOutput s t"
  by (simp add: same_renderer_def GetOutput_def)

lemma new_calls_append:
  assumes "same_renderer s s1" "same_renderer s1 s2"
  shows "same_renderer s s2 \<and> new_calls s s2 = new_calls s s1 @ new_calls s1 s2"
proof -
  obtain xs where xs: "queue s1 = queue s @ xs"
    using assms(1) by (metis append_take_drop_id same_renderer_def)
  obtain ys where ys: "queue s2 = queue s1 @ ys"
    using assms(2) by (metis append_take_drop_id same_renderer_def)
  show ?thesis
    using assms xs ys by (simp add: same_renderer_def new_calls_def)
qed

lemma render_pass_same:
  assumes "GetOutput s kColor = Some output"
  shows "\<exists>s'. render_pass clwscene maxrays pass s = Some s' \<and> same_renderer s s' \<and>
     dispatches (new_calls s s') = pass_dispatches clwscene pass"
  using assms
  by (simp add: render_pass_def EvaluateVolume_def ShadeMiss_def FilterPathStream_def
      RestorePixelIndices_def ShadeVolume_def ShadeSurface_def ShadeBackground_def
      GatherLightSamples_def dispatches_def map_filter_def Let_def new_calls_def
      same_renderer_def pass_dispatches_def)

lemma bounce_loop_same:
  "GetOutput s kColor = Some output \<Longrightarrow>
   \<exists>s'. bounce_loop clwscene maxrays bounces pass s = Some s' \<and> same_renderer s s' \<and>
     dispatches (new_calls s s') = concat (map (pass_dispatches clwscene) [pass..bounces - 1])"
proof (induction clwscene maxrays bounces pass s rule: bounce_loop.induct)
  case (1 clwscene maxrays bounces pass s)
  show ?case
  proof (cases "pass < bounces")
    case False
    then show ?thesis
      by (simp add: bounce_loop.simps [of clwscene maxrays bounces pass s]
          same_renderer_refl new_calls_def dispatches_def map_filter_def)
  next
    case True
    obtain s1 where s1: "render_pass clwscene maxrays pass s = Some s1" "same_renderer s s1"
      "dispatches (new_calls s s1) = pass_dispatches clwscene pass"
      using render_pass_same [OF "1.prems"] by blast
    have out1: "GetOutput s1 kColor = Some output"
      using s1(2) "1.prems" by (simp add: same_renderer_GetOutput)
    obtain s2 where s2: "bounce_loop clwscene maxrays bounces (pass + 1) s1 = Some s2"
      "same_renderer s1 s2"
      "dispatches (new_calls s1 s2) = concat (map (pass_dispatches clwscene) [pass + 1..bounces - 1])"
      using "1.IH" [OF True s1(1) out1] by blast
    have up: "[pass..bounces - 1] = pass # [pass + 1..bounces - 1]"
      using True by (simp add: upto_rec1)
    have "bounce_loop clwscene maxrays bounces pass s = Some s2"
      using True s1(1) s2(1) by (simp add: bounce_loop.simps [of clwscene maxrays bounces pass s])
    moreover have "same_renderer s s2 \<and> new_calls s s2 = new_calls s s1 @ new_calls s1 s2"
      using new_calls_append [OF s1(2) s2(2)] .
    ultimately show ?thesis
      using s1(3) s2(3) up by (simp add: dispatches_append)
  qed
qed

lemma first_aov_needed:
  "aov_pass_needed kMax s i \<Longrightarrow> \<exists>output. first_aov kMax s i = Some output"
proof (induction kMax s i rule: aov_pass_needed.induct)
  case (1 kMax s i)
  then show ?case
    by (cases "i < kMax"; cases "GetOutput s i") (auto simp add: aov_pass_needed.simps [of kMax s i] first_aov.simps [of kMax s i])
qed

lemma aov_pass_needed_cong:
  "m_outputs s' = m_outputs s \<Longrightarrow> aov_pass_needed kMax s' i = aov_pass_needed kMax s i"
proof (induction kMax s i rule: aov_pass_needed.induct)
  case (1 kMax s i)
  show ?case
  proof (cases "i < kMax \<and> GetOutput s i = None")
    case True
    then have "aov_pass_needed kMax s' (i + 1) = aov_pass_needed kMax s (i + 1)"
      using 1 by simp
    moreover have "GetOutput s' i = None"
      using True "1.prems" by (simp add: GetOutput_def)
    ultimately show ?thesis
      using True
      by (simp
          add: aov_pass_needed.simps [of kMax s i] aov_pass_needed.simps [of kMax s' i])
  next
    case False
    moreover have "GetOutput s' i = GetOutput s i"
      using "1.prems" by (simp add: GetOutput_def)
    ultimately show ?thesis
      by (auto
          simp add: aov_pass_needed.simps [of kMax s i] aov_pass_needed.simps [of kMax s' i])
  qed
qed

lemma GeneratePrimaryRays_same:
  "same_renderer s (GeneratePrimaryRays scene output s) \<and>
   dispatches (new_calls s (GeneratePrimaryRays scene output s)) = [generate_kernel scene]"
  by (simp add: GeneratePrimaryRays_def same_renderer_def new_calls_def dispatches_def
      map_filter_def generate_kernel_def Let_def)

lemma FillAOVs_same:
  assumes "GetOutput s kColor \<noteq> None \<or> aov_pass_needed kMax s 1"
  shows "\<exists>s'. FillAOVs kMax scene s = Some s' \<and> same_renderer s s' \<and>
     dispatches (new_calls s s') = [generate_kernel scene, ''QueryIntersection'', ''FillAOVs'']"
proof -
  obtain out where o: "(case GetOutput s kColor of Some output \<Rightarrow> Some output
            | None \<Rightarrow> first_aov kMax s 1) = Some out"
    using assms first_aov_needed [of kMax s 1] by (cases "GetOutput s kColor") auto
  show ?thesis
    unfolding FillAOVs_def o
    by (simp add: GeneratePrimaryRays_def same_renderer_def new_calls_def dispatches_def
      map_filter_def generate_kernel_def Let_def)
qed

lemma render_color_same:
  "\<exists>s1. render_color clwscene s = Some s1 \<and> same_renderer s s1 \<and>
     dispatches (new_calls s s1) = color_dispatches clwscene s"
proof (cases "GetOutput s kColor")
  case None
  then show ?thesis
    by (simp add: render_color_def same_renderer_refl new_calls_def dispatches_def
        map_filter_def color_dispatches_def)
next
  case (Some out)
  define maxrays where "maxrays = sint (width out * height out)"
  define sa where "sa = GeneratePrimaryRays clwscene out s"
  define sb where "sb = enqueue
                              [CopyBufferCl Iota (Pixelindices 0) (iota (m_render_data sa)),
                               CopyBufferCl Iota (Pixelindices 1) (iota (m_render_data sa)),
                               FillBufferCl Hitcount maxrays 1] sa"
  have a: "same_renderer s sa" "dispatches (new_calls s sa) = [generate_kernel clwscene]"
    using GeneratePrimaryRays_same [of s clwscene out] by (simp_all add: sa_def)
  have b: "same_renderer sa sb" "dispatches (new_calls sa sb) = []"
    by (simp_all add: sb_def same_renderer_def new_calls_def dispatches_def map_filter_def)
  have ab: "same_renderer s sb" "dispatches (new_calls s sb) = [generate_kernel clwscene]"
    using new_calls_append [OF a(1) b(1)] a(2) b(2) by (simp_all add: dispatches_append)
  have outb: "GetOutput sb kColor = Some out"
    using ab(1) Some by (simp add: same_renderer_GetOutput)
  have nb: "m_num_bounces sb = m_num_bounces s"
    using ab(1) by (simp add: same_renderer_def)
  obtain s1 where s1: "bounce_loop clwscene maxrays (sint (m_num_bounces sb)) 0 sb = Some s1"
    "same_renderer sb s1"
    "dispatches (new_calls sb s1) =
       concat (map (pass_dispatches clwscene) [0..sint (m_num_bounces sb) - 1])"
    using bounce_loop_same [OF outb] by blast
  have rc: "render_color clwscene s = Some s1"
    unfolding render_color_def Some Let_def option.case
    using s1(1) unfolding sb_def sa_def maxrays_def .
  have "same_renderer s s1 \<and> new_calls s s1 = new_calls s sb @ new_calls sb s1"
    using new_calls_append [OF ab(1) s1(2)] .
  then show ?thesis
    using Some s1(3) ab(2) nb rc by (simp add: dispatches_append color_dispatches_def)
qed

lemma render_aovs_same:
  "\<exists>s2. render_aovs kMax clwscene s = Some s2 \<and> same_renderer s s2 \<and>
     dispatches (new_calls s s2) = aov_dispatches kMax clwscene s"
proof (cases "aov_pass_needed kMax s 1")
  case False
  then show ?thesis
    by (simp add: render_aovs_def same_renderer_refl new_calls_def dispatches_def
        map_filter_def aov_dispatches_def)
next
  case True
  obtain sc where sc: "FillAOVs kMax clwscene s = Some sc" "same_renderer s sc"
    "dispatches (new_calls s sc) = [generate_kernel clwscene, ''QueryIntersection'', ''FillAOVs'']"
    using FillAOVs_same [of s kMax clwscene] True by blast
  have f: "same_renderer sc (enqueue [Flush 0] sc)"
    "dispatches (new_calls sc (enqueue [Flush 0] sc)) = []"
    by (simp_all add: same_renderer_def new_calls_def dispatches_def map_filter_def)
  have "same_renderer s (enqueue [Flush 0] sc) \<and>
        new_calls s (enqueue [Flush 0] sc) = new_calls s sc @ new_calls sc (enqueue [Flush 0] sc)"
    using new_calls_append [OF sc(2) f(1)] .
  then show ?thesis
    using True sc f(2) by (simp add: render_aovs_def dispatches_append aov_dispatches_def)
qed

lemma aov_dispatches_cong:
  "m_outputs s' = m_outputs s \<Longrightarrow> aov_dispatches kMax clwscene s' = aov_dispatches kMax clwscene s"
  using aov_pass_needed_cong [of s' s kMax 1] by (simp add: aov_dispatches_def)

subsection \<open>The launch size\<close>

lemma int32_id: "- (2 ^ 31) \<le> x \<Longrightarrow> x < 2 ^ 31 \<Longrightarrow> int32 x = x"
  by (simp add: int32_def sint_sbintrunc' signed_take_bit_int_eq_self)

text \<open>For an output of fewer than \<open>2^31 - 63\<close> pixels the launch size is the pixel count
  rounded up to a multiple of 64; beyond that the \<open>int\<close> computation wraps.\<close>

lemma launch_globalsize_fits:
  assumes "launch_fits output"
  shows "launch_globalsize output
           = (int (unat (width output * height output)) + 63) div 64 * 64"
proof -
  define n where "n = unat (width output * height output)"
  have n: "n + 63 < 2 ^ 31"
    using assms by (simp add: launch_fits_def n_def)
  have u: "uint (width output * height output) = int n"
    by (simp add: n_def)
  have s: "sint (width output * height output) = int n"
    unfolding sint_uint u using n by (simp add: signed_take_bit_int_eq_self)
  have a: "int32 (int n + 63) = int n + 63"
    using n by (intro int32_id) simp_all
  have d: "(int n + 63) sdiv 64 = (int n + 63) div 64"
    by (simp add: signed_divide_int_def sgn_if)
  have "(int n + 63) div 64 * 64 \<le> int n + 63"
    by simp
  then have b: "int32 ((int n + 63) div 64 * 64) = (int n + 63) div 64 * 64"
    using n by (intro int32_id) simp_all
  show ?thesis
    by (simp add: launch_globalsize_def Let_def s a d b n_def [symmetric])
qed

lemma launch_globalsize_wraps:
  "launch_globalsize \<lparr>width = 2147483647, height = 1\<rparr> = - 2147483584"
  by (simp add: launch_globalsize_def int32_def signed_divide_int_def Let_def)

lemma Render_throws:
  "CompileScene scene = Inl msg \<Longrightarrow> Render kMax CompileScene scene s = Throws msg s"
  by (simp add: Render_def)

lemma Render_returns:
  assumes "CompileScene scene = Inr clwscene"
  shows "\<exists>s'. Render kMax CompileScene scene s = Returns s' \<and>
     m_framecnt s' = m_framecnt s + 1 \<and>
     m_outputs s' = m_outputs s \<and> m_render_data s' = m_render_data s \<and>
     m_num_bounces s' = m_num_bounces s \<and>
     take (length (queue s)) (queue s') = queue s \<and>
     dispatches (new_calls s s') = frame_dispatches kMax clwscene s"
proof -
  obtain s1 where s1: "render_color clwscene s = Some s1" "same_renderer s s1"
     "dispatches (new_calls s s1) = color_dispatches clwscene s"
    using render_color_same [of clwscene s] by blast
  have need: "aov_dispatches kMax clwscene s1 = aov_dispatches kMax clwscene s"
    using aov_dispatches_cong [of s1 s kMax clwscene] s1(2) by (simp add: same_renderer_def)
  obtain s2 where s2: "render_aovs kMax clwscene s1 = Some s2" "same_renderer s1 s2"
    "dispatches (new_calls s1 s2) = aov_dispatches kMax clwscene s1"
    using render_aovs_same [of kMax clwscene s1] by blast
  have all: "same_renderer s s2" "new_calls s s2 = new_calls s s1 @ new_calls s1 s2"
    using new_calls_append [OF s1(2) s2(2)] by simp_all
  have r: "Render kMax CompileScene scene s = Returns (s2\<lparr>m_framecnt := m_framecnt s2 + 1\<rparr>)"
    by (simp add: Render_def assms s1(1) s2(1))
  have nc: "new_calls s (s2\<lparr>m_framecnt := v\<rparr>) = new_calls s s2" for v
    by (simp add: new_calls_def)
  have d: "dispatches (new_calls s s2) = frame_dispatches kMax clwscene s"
    by (simp add: all(2) dispatches_append s1(3) s2(3) need frame_dispatches_def)
  have f: "m_framecnt s2 = m_framecnt s" "m_outputs s2 = m_outputs s"
    "m_render_data s2 = m_render_data s" "m_num_bounces s2 = m_num_bounces s"
    "take (length (queue s)) (queue s2) = queue s"
    using all(1) by (simp_all add: same_renderer_def)
  show ?thesis
    unfolding r by (simp add: f d nc)
qed

text \<open>How a call of \<open>Render\<close> ends is decided by \<open>CompileScene\<close> alone.\<close>

lemma Render_outcome:
  "Render kMax CompileScene scene s \<noteq> Undefined"
  "(\<exists>s'. Render kMax CompileScene scene s = Returns s') \<longleftrightarrow>
     (\<exists>clwscene. CompileScene scene = Inr clwscene)"
  "Render kMax CompileScene scene s = Throws msg s' \<longleftrightarrow>
     CompileScene scene = Inl msg \<and> s' = s"
proof -
  show "Render kMax CompileScene scene s \<noteq> Undefined"
    using Render_returns [of CompileScene scene _ kMax s] Render_throws [of CompileScene scene _ kMax s]
    by (cases "CompileScene scene") auto
  show "(\<exists>s'. Render kMax CompileScene scene s = Returns s') \<longleftrightarrow>
     (\<exists>clwscene. CompileScene scene = Inr clwscene)"
    using Render_returns [of CompileScene scene _ kMax s] Render_throws [of CompileScene scene _ kMax s]
    by (cases "CompileScene scene") auto
  show "Render kMax CompileScene scene s = Throws msg s' \<longleftrightarrow>
     CompileScene scene = Inl msg \<and> s' = s"
    using Render_returns [of CompileScene scene _ kMax s] Render_throws [of CompileScene scene _ kMax s]
    by (cases "CompileScene scene") auto
qed


lemma example_renderer_color:
  "GetOutput example_renderer kColor = Some \<lparr>width = 16, height = 16\<rparr>"
  by (simp add: example_renderer_def SetOutput_def GetOutput_def Renderer_SetOutput_def
      PtRenderer_new_def ResizeWorkingSet_def enqueue_def Let_def)


subsection \<open>The dispatch order of a pass\<close>

text \<open>
  C7. In a pass of the bounce loop (any pass number, any state with a color output
  bound, which is the only way \<open>Render\<close> enters the loop) the dispatches are, in this
  order: intersection query, \<open>EvaluateVolume\<close>, \<open>ShadeMiss\<close> exactly when \<open>pass > 0\<close>
  and \<open>envmapidx > -1\<close>, \<open>FilterPathStream\<close>, compaction, \<open>RestorePixelIndices\<close>,
  \<open>ShadeVolume\<close>, \<open>ShadeSurface\<close>, \<open>ShadeBackgroundEnvMap\<close> exactly when \<open>pass = 0\<close>,
  occlusion query, \<open>GatherLightSamples\<close>.
\<close>

theorem render_pass_dispatch_order:
  assumes "GetOutput s kColor = Some output"
  shows "\<exists>s'. render_pass clwscene maxrays pass s = Some s' \<and>
     take (length (queue s)) (queue s') = queue s \<and>
     dispatches (new_calls s s') =
       [''QueryIntersection'', ''EvaluateVolume'']
       @ (if 0 < pass \<and> - 1 < envmapidx clwscene then [''ShadeMiss''] else [])
       @ [''FilterPathStream'', ''Compact'', ''RestorePixelIndices'', ''ShadeVolume'',
          ''ShadeSurface'']
       @ (if pass = 0 then [''ShadeBackgroundEnvMap''] else [])
       @ [''QueryOcclusion'', ''GatherLightSamples''] \<and>
     (''ShadeBackgroundEnvMap'' \<in> set (dispatches (new_calls s s')) \<longleftrightarrow> pass = 0) \<and>
     (''ShadeMiss'' \<in> set (dispatches (new_calls s s')) \<longleftrightarrow>
        0 < pass \<and> - 1 < envmapidx clwscene)"
proof -
  obtain s' where s': "render_pass clwscene maxrays pass s = Some s'" "same_renderer s s'"
    "dispatches (new_calls s s') = pass_dispatches clwscene pass"
    using render_pass_same [OF assms] by blast
  have "take (length (queue s)) (queue s') = queue s"
    using s'(2) by (simp add: same_renderer_def)
  then show ?thesis
    using s'(1) s'(3) by (simp add: pass_dispatches_def)
qed

theorem render_pass_dispatch_order_witness:
  "\<exists>s'. render_pass example_scene 256 1 example_renderer = Some s' \<and>
     dispatches (new_calls example_renderer s') =
       [''QueryIntersection'', ''EvaluateVolume'', ''ShadeMiss'', ''FilterPathStream'',
        ''Compact'', ''RestorePixelIndices'', ''ShadeVolume'', ''ShadeSurface'',
        ''QueryOcclusion'', ''GatherLightSamples'']"
proof -
  have e: "envmapidx example_scene = 2"
    by (simp add: example_scene_def)
  obtain s' where "render_pass example_scene 256 1 example_renderer = Some s'"
    "dispatches (new_calls example_renderer s') =
       [''QueryIntersection'', ''EvaluateVolume'']
       @ (if (0::int) < 1 \<and> - 1 < envmapidx example_scene then [''ShadeMiss''] else [])
       @ [''FilterPathStream'', ''Compact'', ''RestorePixelIndices'', ''ShadeVolume'',
          ''ShadeSurface'']
       @ (if (1::int) = 0 then [''ShadeBackgroundEnvMap''] else [])
       @ [''QueryOcclusion'', ''GatherLightSamples'']"
    using render_pass_dispatch_order [OF example_renderer_color, of example_scene 256 1]
    by blast
  then show ?thesis
    by (simp add: e)
qed

text \<open>Over the whole loop the passes are \<open>pass, pass + 1, ..., bounces - 1\<close>, each with
  the order above.\<close>

lemma bounce_loop_dispatch_order:
  assumes "GetOutput s kColor = Some output"
  shows "\<exists>s'. bounce_loop clwscene maxrays bounces pass s = Some s' \<and>
     dispatches (new_calls s s') = concat (map (pass_dispatches clwscene) [pass..bounces - 1])"
  using bounce_loop_same [OF assms] by blast



subsection \<open>Render with no color output\<close>





subsection \<open>The frame counter\<close>

lemma example_late_renderer_fields:
  "m_framecnt example_late_renderer = 4294967295"
  "GetOutput example_late_renderer kColor = Some \<lparr>width = 16, height = 16\<rparr>"
  "queue example_late_renderer = queue example_renderer"
  using example_renderer_color by (simp_all add: example_late_renderer_def GetOutput_def)

text \<open>
  C10 (as stated, refuted). \<open>m_framecnt\<close> is a 32-bit unsigned counter. A \<open>Render\<close> call
  made when it holds \<open>2^32 - 1\<close> does not leave it one larger: the increment wraps, and it is
  \<open>Render\<close>, with no \<open>Clear\<close> among its calls, that sets the counter to zero.
\<close>

theorem Render_framecnt_wraps_counterexample:
  "m_framecnt example_late_renderer = 4294967295 \<and>
   (case Render 3 example_controller () example_late_renderer of
      Returns s' \<Rightarrow> m_framecnt s' = 0
    | Throws msg s' \<Rightarrow> False
    | Undefined \<Rightarrow> False)"
proof -
  have c: "example_controller () = Inr example_scene"
    by (simp add: example_controller_def)
  obtain s' where s': "Render 3 example_controller () example_late_renderer = Returns s'"
    "m_framecnt s' = m_framecnt example_late_renderer + 1"
    using Render_returns [of example_controller "()" example_scene 3 example_late_renderer, OF c]
    by blast
  show ?thesis
    using s' by (simp add: example_late_renderer_fields)
qed

text \<open>
  C10 (amended). Every call of \<open>Render\<close> that returns has advanced \<open>m_framecnt\<close> by
  one modulo \<open>2^32\<close>, whatever is bound (also with no color output, when no bounce-loop
  kernel is dispatched); it leaves the counter at zero exactly when it found
  \<open>2^32 - 1\<close>. A call that throws (\<open>CompileScene\<close> has thrown) leaves the counter as it
  was. \<open>Render\<close> returns when \<open>CompileScene\<close> does, every bound output having fewer than
  \<open>2^31 - 63\<close> pixels. \<open>Clear\<close> sets the counter to zero; \<open>SetOutput\<close>,
  \<open>ResizeWorkingSet\<close>, \<open>SetNumBounces\<close> and \<open>RunBenchmark\<close> leave it as it is.
\<close>

theorem Render_advances_framecnt:
  "(\<forall>s'. Render kMax CompileScene scene s = Returns s' \<longrightarrow>
       m_framecnt s' = m_framecnt s + 1 \<and>
       unat (m_framecnt s') = (unat (m_framecnt s) + 1) mod 2 ^ 32 \<and>
       (m_framecnt s' = 0 \<longleftrightarrow> m_framecnt s = 4294967295)) \<and>
   (\<forall>msg s'. Render kMax CompileScene scene s = Throws msg s' \<longrightarrow>
       m_framecnt s' = m_framecnt s) \<and>
   (\<forall>clwscene. CompileScene scene = Inr clwscene \<and>
       (\<forall>type out. GetOutput s type = Some out \<longrightarrow> launch_fits out) \<longrightarrow>
       (\<exists>s'. Render kMax CompileScene scene s = Returns s')) \<and>
   (\<forall>msg. CompileScene scene = Inl msg \<longrightarrow>
       Render kMax CompileScene scene s = Throws msg s) \<and>
   m_framecnt (Clear output s) = 0 \<and>
   m_framecnt (SetOutput type output s) = m_framecnt s \<and>
   m_framecnt (ResizeWorkingSet output s) = m_framecnt s \<and>
   m_framecnt (SetNumBounces num_bounces s) = m_framecnt s \<and>
   (\<forall>s'. RunBenchmark CompileScene scene num_passes s = Returns s' \<longrightarrow>
       m_framecnt s' = m_framecnt s)"
proof -
  have r: "m_framecnt s' = m_framecnt s + 1 \<and>
       unat (m_framecnt s') = (unat (m_framecnt s) + 1) mod 2 ^ 32 \<and>
       (m_framecnt s' = 0 \<longleftrightarrow> m_framecnt s = 4294967295)"
    if ret: "Render kMax CompileScene scene s = Returns s'" for s'
  proof -
    obtain clwscene where c: "CompileScene scene = Inr clwscene"
      using Render_outcome(2) [of kMax CompileScene scene s] ret by blast
    have 1: "m_framecnt s' = m_framecnt s + 1"
      using Render_returns [of CompileScene scene clwscene kMax s, OF c] ret by auto
    have 2: "unat (m_framecnt s + 1) = (unat (m_framecnt s) + 1) mod 2 ^ 32"
      by (simp add: unat_word_ariths)
    have 3: "m_framecnt s + 1 = 0 \<longleftrightarrow> m_framecnt s = 4294967295"
    proof
      assume "m_framecnt s + 1 = 0"
      then have "m_framecnt s = - 1"
        by (simp add: add_eq_0_iff2)
      then show "m_framecnt s = 4294967295"
        by simp
    next
      assume "m_framecnt s = 4294967295"
      then show "m_framecnt s + 1 = 0"
        by simp
    qed
    show ?thesis
      using 1 2 3 by simp
  qed
  have t: "m_framecnt s' = m_framecnt s"
    if "Render kMax CompileScene scene s = Throws msg s'" for msg s'
    using Render_outcome(3) [of kMax CompileScene scene s msg s'] that by simp
  have e: "\<exists>s'. Render kMax CompileScene scene s = Returns s'"
    if "CompileScene scene = Inr clwscene" for clwscene
    using Render_returns [of CompileScene scene clwscene kMax s, OF that] by blast
  have th: "Render kMax CompileScene scene s = Throws msg s"
    if "CompileScene scene = Inl msg" for msg
    using that by (rule Render_throws)
  have c: "m_framecnt (Clear output s) = 0"
    by (simp add: Clear_def)
  have z: "m_framecnt (ResizeWorkingSet output t) = m_framecnt t" for t
    by (simp add: ResizeWorkingSet_def Let_def)
  have o: "m_framecnt (SetOutput type output s) = m_framecnt s"
    by (simp add: SetOutput_def Renderer_SetOutput_def Let_def z split: option.splits)
  have n: "m_framecnt (SetNumBounces num_bounces s) = m_framecnt s"
    by (simp add: SetNumBounces_def)
  have b: "m_framecnt s' = m_framecnt s"
    if "RunBenchmark CompileScene scene num_passes s = Returns s'" for s'
    using that
    by (auto simp add: RunBenchmark_def benchmark_passes_def Let_def ShadeSurface_def
        ShadeMiss_def FilterPathStream_def RestorePixelIndices_def GatherLightSamples_def
        GeneratePrimaryRays_def split: option.splits sum.splits)
  show ?thesis
    using r t e th c z o n b by blast
qed

theorem Render_advances_framecnt_witness:
  "(\<exists>s'. Render 3 example_controller () example_aov_renderer = Returns s' \<and> m_framecnt s' = 1) \<and>
   (\<exists>s'. Render 3 example_controller () example_renderer = Returns s' \<and> m_framecnt s' = 1) \<and>
   Render 3 example_failing_controller () example_renderer
     = Throws ''no camera in the scene'' example_renderer"
proof -
  have a: "m_framecnt example_aov_renderer = 0"
    "m_outputs example_aov_renderer = (\<lambda>type. None)(1 := Some \<lparr>width = 64, height = 64\<rparr>)"
    by (simp_all add: example_aov_renderer_def SetOutput_def Renderer_SetOutput_def
        PtRenderer_new_def ResizeWorkingSet_def GetOutput_def Let_def)
  have b: "m_framecnt example_renderer = 0"
    "m_outputs example_renderer = (\<lambda>type. None)(kColor := Some \<lparr>width = 16, height = 16\<rparr>)"
    by (simp_all add: example_renderer_def SetOutput_def Renderer_SetOutput_def
        PtRenderer_new_def ResizeWorkingSet_def GetOutput_def Let_def)
  have c: "example_controller () = Inr example_scene"
    "example_failing_controller () = Inl ''no camera in the scene''"
    by (simp_all add: example_controller_def example_failing_controller_def)
  have fa: "\<forall>type out. GetOutput example_aov_renderer type = Some out \<longrightarrow> launch_fits out"
    by (auto simp add: GetOutput_def a(2) launch_fits_def split: if_splits)
  have fb: "\<forall>type out. GetOutput example_renderer type = Some out \<longrightarrow> launch_fits out"
    by (auto simp add: GetOutput_def b(2) launch_fits_def split: if_splits)
  note A = Render_advances_framecnt [of 3 example_controller "()" example_aov_renderer]
  note B = Render_advances_framecnt [of 3 example_controller "()" example_renderer]
  note C = Render_advances_framecnt [of 3 example_failing_controller "()" example_renderer]
  obtain sa where sa: "Render 3 example_controller () example_aov_renderer = Returns sa"
    using A c(1) fa by blast
  obtain sb where sb: "Render 3 example_controller () example_renderer = Returns sb"
    using B c(1) fb by blast
  have 1: "m_framecnt sa = 1"
    using A sa a(1) by auto
  have 2: "m_framecnt sb = 1"
    using B sb b(1) by auto
  have 3: "Render 3 example_failing_controller () example_renderer
             = Throws ''no camera in the scene'' example_renderer"
    using C c(2) by blast
  show ?thesis
    using sa sb 1 2 3 by blast
qed


subsection \<open>SetOutput and the working set\<close>

lemma ResizeWorkingSet_queue:
  "queue (ResizeWorkingSet output s) \<noteq> queue s"
  by (simp add: ResizeWorkingSet_def Let_def)

lemma ResizeWorkingSet_data:
  "m_render_data (ResizeWorkingSet output s) =
     (let n = unat (width output * height output)
      in \<lparr>rays0 = n, rays1 = n, hits = n, intersections = n,
          shadowrays = n * kMaxLightSamples, shadowhits = n * kMaxLightSamples,
          lightsamples = n * kMaxLightSamples, paths = n, random = n, iota = n,
          compacted_indices = n, pixelindices0 = n, pixelindices1 = n,
          hitcount = 1\<rparr>)"
  by (simp add: ResizeWorkingSet_def Let_def)

text \<open>
  The guard of \<open>SetOutput\<close> looks at the output bound to the slot it is given:
  the working set is reallocated exactly when that slot is empty, or holds an output that
  is strictly smaller in width or in height than the new one. Every per-pixel buffer
  then gets \<open>width * height\<close> elements (the 32-bit product) of the new output, whatever
  it had before; otherwise the working set and the queue are untouched. The new output
  is bound in both cases.
\<close>

lemma SetOutput_reallocates:
  "(queue (SetOutput type output s) \<noteq> queue s \<longleftrightarrow>
      (case GetOutput s type of
         None \<Rightarrow> True
       | Some current_output \<Rightarrow>
           width current_output < width output \<or> height current_output < height output)) \<and>
   (queue (SetOutput type output s) \<noteq> queue s \<longrightarrow>
      m_render_data (SetOutput type output s) =
        (let n = unat (width output * height output)
         in \<lparr>rays0 = n, rays1 = n, hits = n, intersections = n,
             shadowrays = n * kMaxLightSamples, shadowhits = n * kMaxLightSamples,
             lightsamples = n * kMaxLightSamples, paths = n, random = n, iota = n,
             compacted_indices = n, pixelindices0 = n, pixelindices1 = n,
             hitcount = 1\<rparr>)) \<and>
   (queue (SetOutput type output s) = queue s \<longrightarrow>
      m_render_data (SetOutput type output s) = m_render_data s) \<and>
   GetOutput (SetOutput type output s) type = Some output"
proof (cases "GetOutput s type")
  case None
  then show ?thesis
    using ResizeWorkingSet_queue [of "output" s]
    by (simp add: SetOutput_def Renderer_SetOutput_def GetOutput_def ResizeWorkingSet_data Let_def)
next
  case (Some cur)
  show ?thesis
  proof (cases "width cur < width output \<or> height cur < height output")
    case True
    then show ?thesis
      using Some ResizeWorkingSet_queue [of "output" s]
      by (simp add: SetOutput_def Renderer_SetOutput_def GetOutput_def ResizeWorkingSet_data Let_def)
  next
    case False
    then show ?thesis
      using Some
      by (simp add: SetOutput_def Renderer_SetOutput_def GetOutput_def Let_def)
  qed
qed

lemma example_shrunk:
  "m_render_data (SetOutput kColor \<lparr>width = 64, height = 64\<rparr> (PtRenderer_new 1)) =
     \<lparr>rays0 = 4096, rays1 = 4096, hits = 4096, intersections = 4096, shadowrays = 4096,
      shadowhits = 4096, lightsamples = 4096, paths = 4096, random = 4096, iota = 4096,
      compacted_indices = 4096, pixelindices0 = 4096, pixelindices1 = 4096, hitcount = 1\<rparr>"
  "m_render_data example_shrunk_renderer =
     \<lparr>rays0 = 64, rays1 = 64, hits = 64, intersections = 64, shadowrays = 64,
      shadowhits = 64, lightsamples = 64, paths = 64, random = 64, iota = 64,
      compacted_indices = 64, pixelindices0 = 64, pixelindices1 = 64, hitcount = 1\<rparr>"
  "m_outputs example_shrunk_renderer =
     (\<lambda>type. None)(kColor := Some \<lparr>width = 64, height = 64\<rparr>,
                     1 := Some \<lparr>width = 8, height = 8\<rparr>)"
  "m_num_bounces example_shrunk_renderer = 1"
  "m_framecnt example_shrunk_renderer = 0"
  by (simp_all add: example_shrunk_renderer_def SetOutput_def GetOutput_def
      Renderer_SetOutput_def PtRenderer_new_def ResizeWorkingSet_def enqueue_def Let_def
      kColor_def kMaxLightSamples_def)

lemma example_shrunk_Render:
  "(case Render 3 example_controller () example_shrunk_renderer of
      Returns s' \<Rightarrow>
        launches (new_calls example_shrunk_renderer s') =
          [(''EvaluateVolume'', 4096), (''FilterPathStream'', 4096),
           (''RestorePixelIndices'', 4096), (''ShadeVolume'', 4096), (''ShadeSurface'', 4096),
           (''ShadeBackgroundEnvMap'', 4096), (''GatherLightSamples'', 4096),
           (''FillAOVs'', 4096)]
    | Throws msg s' \<Rightarrow> False
    | Undefined \<Rightarrow> False)"
  by (simp add: Render_def example_controller_def example_scene_def render_color_def
      render_aovs_def GetOutput_def example_shrunk kColor_def Let_def GeneratePrimaryRays_def
      bounce_loop.simps render_pass_def EvaluateVolume_def ShadeMiss_def FilterPathStream_def
      RestorePixelIndices_def ShadeVolume_def ShadeSurface_def ShadeBackground_def
      GatherLightSamples_def aov_pass_needed.simps FillAOVs_def launches_def map_filter_def
      new_calls_def launch_globalsize_def int32_def signed_divide_int_def)



text \<open>
  C2 (the code departs from the claim). Bind a 64x64 color output, then an 8x8
  output to the auxiliary slot 1. The second call finds slot 1 empty and reallocates:
  every per-pixel buffer shrinks from 4096 to 64 elements while the 64x64 color output
  stays bound, and the next \<open>Render\<close> launches its shading kernels over 4096 items on
  buffers of 64.
\<close>

theorem SetOutput_shrinks_working_set:
  "example_shrunk_renderer =
     SetOutput 1 \<lparr>width = 8, height = 8\<rparr>
       (SetOutput kColor \<lparr>width = 64, height = 64\<rparr> (PtRenderer_new 1)) \<and>
   m_render_data (SetOutput kColor \<lparr>width = 64, height = 64\<rparr> (PtRenderer_new 1)) =
     \<lparr>rays0 = 4096, rays1 = 4096, hits = 4096, intersections = 4096, shadowrays = 4096,
      shadowhits = 4096, lightsamples = 4096, paths = 4096, random = 4096, iota = 4096,
      compacted_indices = 4096, pixelindices0 = 4096, pixelindices1 = 4096, hitcount = 1\<rparr> \<and>
   m_render_data example_shrunk_renderer =
     \<lparr>rays0 = 64, rays1 = 64, hits = 64, intersections = 64, shadowrays = 64,
      shadowhits = 64, lightsamples = 64, paths = 64, random = 64, iota = 64,
      compacted_indices = 64, pixelindices0 = 64, pixelindices1 = 64, hitcount = 1\<rparr> \<and>
   GetOutput example_shrunk_renderer kColor = Some \<lparr>width = 64, height = 64\<rparr> \<and>
   (case Render 3 example_controller () example_shrunk_renderer of
      Returns s' \<Rightarrow>
        launches (new_calls example_shrunk_renderer s') =
          [(''EvaluateVolume'', 4096), (''FilterPathStream'', 4096),
           (''RestorePixelIndices'', 4096), (''ShadeVolume'', 4096), (''ShadeSurface'', 4096),
           (''ShadeBackgroundEnvMap'', 4096), (''GatherLightSamples'', 4096),
           (''FillAOVs'', 4096)]
    | Throws msg s' \<Rightarrow> False
    | Undefined \<Rightarrow> False)"
proof -
  have g: "GetOutput example_shrunk_renderer kColor = Some \<lparr>width = 64, height = 64\<rparr>"
    by (simp add: GetOutput_def example_shrunk(3) kColor_def)
  show ?thesis
    by (intro conjI example_shrunk_renderer_def example_shrunk(1) example_shrunk(2) g
        example_shrunk_Render)
qed

end
